theory Spec2Isabelle
  imports Complex_Main
begin

section \<open>JavaScript values used by the commands\<close>

text \<open>
  The commands of the command-line interface are JavaScript. Their handlers throw
  \<^verbatim>\<open>new Error(message)\<close>; the model returns the error as a value, in the left
  summand of a sum type.
\<close>

datatype error = Error (message: string)

text \<open>
  An option that yargs declares with \<^verbatim>\<open>type: 'number'\<close> reaches the handler as a
  JavaScript number: \<open>NaN\<close> (for \<^verbatim>\<open>--gas=abc\<close>) or a finite value.
\<close>

datatype number = NaN | Num rat

text \<open>
  \<^verbatim>\<open>parseInt(x)\<close> on a number reads the decimal text of \<open>x\<close> up to the first
  character that is not a digit, so it cuts the fraction off (truncation towards zero),
  and it is \<open>NaN\<close> on \<open>NaN\<close>. The result is \<open>None\<close> for \<open>NaN\<close>. JavaScript
  prints a number in plain decimal notation when it is zero or its magnitude is in
  \<open>[10\<^sup>-\<^sup>6, 10\<^sup>2\<^sup>1)\<close>; \<open>plain_decimal\<close> says so, and outside that range (exponent
  notation) the truncation is not what \<^verbatim>\<open>parseInt\<close> returns.
\<close>

definition plain_decimal :: "rat \<Rightarrow> bool" where
  "plain_decimal r = (r = 0 \<or> (1 / 10 ^ 6 \<le> \<bar>r\<bar> \<and> \<bar>r\<bar> < 10 ^ 21))"

definition parseInt_number :: "number \<Rightarrow> int option" where
  "parseInt_number x =
     (case x of NaN \<Rightarrow> None | Num r \<Rightarrow> Some (if 0 \<le> r then \<lfloor>r\<rfloor> else \<lceil>r\<rceil>))"

text \<open>Comparisons with \<open>NaN\<close> are false in JavaScript, whatever the operator.\<close>

definition js_le :: "int option \<Rightarrow> int \<Rightarrow> bool" where
  "js_le x n = (case x of None \<Rightarrow> False | Some m \<Rightarrow> m \<le> n)"

definition js_lt :: "int option \<Rightarrow> int \<Rightarrow> bool" where
  "js_lt x n = (case x of None \<Rightarrow> False | Some m \<Rightarrow> m < n)"

definition js_gt :: "int option \<Rightarrow> int \<Rightarrow> bool" where
  "js_gt x n = (case x of None \<Rightarrow> False | Some m \<Rightarrow> n < m)"

text \<open>
  \<^verbatim>\<open>argv.gas || 800000\<close>: the left operand unless it is falsy; the falsy numbers are
  \<open>0\<close> and \<open>NaN\<close>.
\<close>

definition or_default :: "number \<Rightarrow> rat \<Rightarrow> number" where
  "or_default x d = (case x of NaN \<Rightarrow> Num d | Num r \<Rightarrow> if r = 0 then Num d else Num r)"

text \<open>Decimal text of an integer: \<^verbatim>\<open>toString()\<close> of a number or of a big number.\<close>

fun toString_nat :: "nat \<Rightarrow> string" where
  "toString_nat n =
     (if n < 10 then [''0123456789'' ! n]
      else toString_nat (n div 10) @ [''0123456789'' ! (n mod 10)])"

declare toString_nat.simps [simp del]

definition toString :: "int \<Rightarrow> string" where
  "toString i = (if i < 0 then CHR ''-'' # toString_nat (nat (- i)) else toString_nat (nat i))"

definition toString_number :: "int option \<Rightarrow> string" where
  "toString_number x = (case x of None \<Rightarrow> ''NaN'' | Some i \<Rightarrow> toString i)"

section \<open>Gas policy, timeout and period (claim-commands/nii.js, claim-commands/fees.js)\<close>

text \<open>
  The four validators stand at the end of nii.js (lines 134 to 160); fees.js has the
  same \<open>validateGasPrice\<close>, \<open>validateGasLimit\<close> and \<open>validateTimeout\<close>.
\<close>

definition validateGasPrice :: "number \<Rightarrow> error + int option" where
  "validateGasPrice priceGWei =
     (let price = parseInt_number priceGWei in
      if js_le price 0 then Inl (Error ''Gas price must be a number higher than 0.'')
      else Inr price)"

definition validateGasLimit :: "number \<Rightarrow> error + int option" where
  "validateGasLimit gas =
     (let gasLimit = parseInt_number gas in
      if js_le gasLimit 0 then Inl (Error ''Gas limit must be a number higher than 0.'')
      else Inr gasLimit)"

definition validatePeriod :: "number \<Rightarrow> error + int option" where
  "validatePeriod period =
     (let period = parseInt_number period in
      if js_lt period 1 \<or> js_gt period 120
      then Inl (Error ''Period must be a number from 1 to 120.'')
      else Inr period)"

definition validateTimeout :: "number \<Rightarrow> error + int option" where
  "validateTimeout timeout =
     (let timeout = parseInt_number timeout in
      if js_le timeout 0 then Inl (Error ''Timeout must be a number higher than 0.'')
      else Inr timeout)"

text \<open>
  \<^verbatim>\<open>ethers.utils.parseUnits(gasPriceGWEI.toString(), 'gwei')\<close>. The function is the
  ethers library's, not this repository's: on the decimal text of an integer it is that
  integer times \<open>10\<^sup>9\<close> (the deposit test expects \<open>2000000000\<close> for a price of 2), and
  it throws on the text \<open>NaN\<close>. The text that \<^verbatim>\<open>toString()\<close> gives for a number is
  the decimal text of its value when the value is below \<open>2\<^sup>5\<^sup>3\<close>; from there on it is
  the shortest text that reads back as the same double (\<open>2\<^sup>6\<^sup>4\<close> prints as
  18446744073709552000), so the definition is the code's gas price for prices below
  \<open>2\<^sup>5\<^sup>3\<close> only.
\<close>

definition parseUnits_gwei :: "int option \<Rightarrow> error + int" where
  "parseUnits_gwei gasPriceGWEI =
     (case gasPriceGWEI of
        None \<Rightarrow> Inl (Error ''invalid decimal value'')
      | Some n \<Rightarrow> Inr (n * 10 ^ 9))"

record options =
  gasLimit :: "int option"
  gasPrice :: int

text \<open>The arguments of \<^verbatim>\<open>claim nii for period <period>\<close>, as yargs hands them over.\<close>

record nii_argv =
  period :: number
  gas :: number
  price :: number
  timeout :: number

text \<open>
  Lines 31 to 37 of the handler of nii.js: the validated period, the transaction options
  and the timeout, or the first error thrown.
\<close>

definition nii_settings :: "nii_argv \<Rightarrow> error + (int option \<times> options \<times> int option)" where
  "nii_settings argv =
     (case validatePeriod (period argv) of Inl e \<Rightarrow> Inl e | Inr period' \<Rightarrow>
     (case validateGasLimit (or_default (gas argv) 800000) of Inl e \<Rightarrow> Inl e | Inr gasLimit' \<Rightarrow>
     (case validateTimeout (timeout argv) of Inl e \<Rightarrow> Inl e | Inr timeout' \<Rightarrow>
     (case validateGasPrice (or_default (price argv) 12) of Inl e \<Rightarrow> Inl e | Inr gasPriceGWEI \<Rightarrow>
     (case parseUnits_gwei gasPriceGWEI of Inl e \<Rightarrow> Inl e | Inr gasPrice' \<Rightarrow>
        Inr (period', \<lparr>gasLimit = gasLimit', gasPrice = gasPrice'\<rparr>, timeout'))))))"

section \<open>Runs: what a handler does, and how it ends\<close>

text \<open>
  A handler talks to the world outside this repository: the nahmii provider, the wallet,
  the NII token contract, the progress spinner and the console. A run of it is the list
  of these calls in the order they are made, each with what it returned (\<open>Inl\<close> when
  the call threw or its promise was rejected), and the way the handler ends: \<open>Inl\<close>
  with the error it throws, or \<open>Inr\<close> with its value.
\<close>

record txReceipt =
  transactionHash :: string
  blockNumber :: int
  gasUsed :: int

text \<open>The object \<open>reduceReceipt\<close> builds: one entry of the printed report.\<close>

record reduced =
  r_transactionHash :: string
  r_blockNumber :: int
  r_gasUsed :: string
  r_href :: string

text \<open>
  The four transactions of the NII claim: \<^verbatim>\<open>revenueTokenManager.release\<close> (line 56),
  \<^verbatim>\<open>wallet.approveTokenDeposit(0, ...)\<close> (line 80, clearing the allowance),
  \<^verbatim>\<open>wallet.approveTokenDeposit\<close> of the balance (line 93) and
  \<^verbatim>\<open>wallet.completeTokenDeposit\<close> (line 108).
\<close>

datatype step = Release | Clear | Approve | Complete

text \<open>The first argument of a transaction: a number (\<open>None\<close> is \<open>NaN\<close>) or a string.\<close>

datatype argument = NumArg "int option" | StrArg string

datatype event =
    ProviderFrom "error + unit"
  | PrivateKey "error + unit"
  | Erc20ContractFrom "error + unit"
  | BalanceOf "error + int"
  | GetDepositAllowance "error + int"
  | Submit step argument options "error + string"
  | GetTransactionConfirmation step string "int option" "error + txReceipt"
  | SpinnerStart string
  | SpinnerSucceed string
  | SpinnerFail "string option"
  | Dbg string
  | ConsoleError string
  | ConsoleLog "reduced option list"
  | StopUpdate

text \<open>
  The combinators below are the same for every kind of event; \<open>'a run\<close> is a run of
  the NII claim.
\<close>

type_synonym ('e, 'a) run_of = "'e list \<times> (error + 'a)"

type_synonym 'a run = "(event, 'a) run_of"

definition return :: "'a \<Rightarrow> ('e, 'a) run_of" where
  "return x = ([], Inr x)"

definition throw :: "error \<Rightarrow> ('e, 'a) run_of" where
  "throw e = ([], Inl e)"

text \<open>A call that returns nothing and does not fail (the spinner, the console).\<close>

definition emit :: "'e \<Rightarrow> ('e, unit) run_of" where
  "emit ev = ([ev], Inr ())"

text \<open>An awaited call: the event records what came back, and a rejection is thrown.\<close>

definition call :: "((error + 'a) \<Rightarrow> 'e) \<Rightarrow> (error + 'a) \<Rightarrow> ('e, 'a) run_of" where
  "call ev outcome = ([ev outcome], outcome)"

text \<open>Statement after statement: the second runs only when the first did not throw.\<close>

definition bind :: "('e, 'a) run_of \<Rightarrow> ('a \<Rightarrow> ('e, 'b) run_of) \<Rightarrow> ('e, 'b) run_of" where
  "bind m k =
     (case m of
        (t, Inl e) \<Rightarrow> (t, Inl e)
      | (t, Inr x) \<Rightarrow> (case k x of (t', r) \<Rightarrow> (t @ t', r)))"

definition seq :: "('e, 'a) run_of \<Rightarrow> ('e, 'b) run_of \<Rightarrow> ('e, 'b) run_of" where
  "seq m k = bind m (\<lambda>_. k)"

text \<open>\<^verbatim>\<open>try { m } catch (err) { h(err) }\<close>\<close>

definition try_catch :: "('e, 'a) run_of \<Rightarrow> (error \<Rightarrow> ('e, 'a) run_of) \<Rightarrow> ('e, 'a) run_of" where
  "try_catch m h =
     (case m of
        (t, Inl e) \<Rightarrow> (case h e of (t', r) \<Rightarrow> (t @ t', r))
      | (t, Inr x) \<Rightarrow> (t, Inr x))"

text \<open>
  \<^verbatim>\<open>try { m } finally { f }\<close>: \<open>f\<close> runs however \<open>m\<close> ended; when \<open>f\<close> throws, its
  error replaces the outcome of \<open>m\<close>, otherwise the outcome of \<open>m\<close> stands.
\<close>

definition try_finally :: "('e, 'a) run_of \<Rightarrow> ('e, unit) run_of \<Rightarrow> ('e, 'a) run_of" where
  "try_finally m f =
     (case m of (t, r) \<Rightarrow>
        (case f of
           (t', Inl e) \<Rightarrow> (t @ t', Inl e)
         | (t', Inr _) \<Rightarrow> (t @ t', r)))"

section \<open>The NII claim workflow (claim-commands/nii.js)\<close>

text \<open>
  What the world answers in one run, one field for each place of the handler that awaits
  an answer, in the order of the source. Every run of the handler is the run for some
  value of this record. \<open>formatUnits\<close> is \<^verbatim>\<open>ethers.utils.formatUnits\<close>, a function of
  the ethers library.
\<close>

record env =
  formatUnits :: "int \<Rightarrow> nat \<Rightarrow> string"
  provider_from :: "error + unit"
  private_key :: "error + unit"
  erc20_contract :: "error + unit"
  balance_opening :: "error + int"
  release_tx :: "error + string"
  release_confirmation :: "error + txReceipt"
  balance_depositing :: "error + int"
  deposit_allowance :: "error + int"
  clear_tx :: "error + string"
  clear_confirmation :: "error + txReceipt"
  approve_tx :: "error + string"
  approve_confirmation :: "error + txReceipt"
  complete_tx :: "error + string"
  complete_confirmation :: "error + txReceipt"
  balance_closing :: "error + int"

definition reduceReceipt :: "txReceipt option \<Rightarrow> reduced option" where
  "reduceReceipt txReceipt =
     (case txReceipt of
        None \<Rightarrow> None
      | Some r \<Rightarrow>
          Some \<lparr>r_transactionHash = transactionHash r,
                r_blockNumber = blockNumber r,
                r_gasUsed = toString (gasUsed r),
                r_href = ''https://ropsten.etherscan.io/tx/'' @ transactionHash r\<rparr>)"

text \<open>Lines 53 to 66: the release, in a try of its own whose catch does not rethrow.\<close>

definition release_step :: "int option \<Rightarrow> options \<Rightarrow> int option \<Rightarrow> env \<Rightarrow> txReceipt option run" where
  "release_step period' opts timeout' w =
     try_catch
       (seq (emit (SpinnerStart (''1/8 - Registering claim for period '' @ toString_number period')))
       (bind (call (Submit Release (NumArg (map_option (\<lambda>p. p - 1) period')) opts) (release_tx w))
          (\<lambda>releaseTx.
        seq (emit (SpinnerSucceed (''1/8 - Claim registered for period '' @ toString_number period')))
       (seq (emit (SpinnerStart ''2/8 - Confirming claim''))
       (bind (call (GetTransactionConfirmation Release releaseTx timeout') (release_confirmation w))
          (\<lambda>releaseReceipt.
        seq (emit (SpinnerSucceed ''2/8 - Claim confirmed''))
       (return (Some releaseReceipt))))))))
       (\<lambda>err.
        seq (emit (Dbg (message err)))
       (seq (emit (SpinnerFail (Some (message err))))
       (return None)))"

text \<open>Lines 75 to 105: clearing and approving the allowance, or skipping them.\<close>

definition approve_steps :: "int \<Rightarrow> int \<Rightarrow> options \<Rightarrow> int option \<Rightarrow> env \<Rightarrow> txReceipt option run" where
  "approve_steps niiBalance allowance opts timeout' w =
     (if allowance < niiBalance then
        seq (if 0 < allowance then
               seq (emit (SpinnerStart ''3/8 - Clearing allowance''))
              (bind (call (Submit Clear (NumArg (Some 0)) opts) (clear_tx w))
                 (\<lambda>pendingClearTx.
               seq (emit (SpinnerSucceed ''3/8 - Allowance cleared''))
              (seq (emit (SpinnerStart ''4/8 - Confirming allowance is cleared''))
              (seq (call (GetTransactionConfirmation Clear pendingClearTx timeout') (clear_confirmation w))
              (emit (SpinnerSucceed ''4/8 - Allowance confirmed cleared''))))))
             else
               seq (emit (SpinnerSucceed ''3/8 - Skipped''))
              (emit (SpinnerSucceed ''4/8 - Skipped'')))
       (seq (emit (SpinnerStart (''5/8 - Approving transfer of '' @ toString niiBalance @ '' NII'')))
       (bind (call (Submit Approve (StrArg (formatUnits w niiBalance 15)) opts) (approve_tx w))
          (\<lambda>pendingApprovalTx.
        seq (emit (SpinnerSucceed ''5/8 - Transfer approval registered''))
       (seq (emit (SpinnerStart ''6/8 - Confirming transfer approval''))
       (bind (call (GetTransactionConfirmation Approve pendingApprovalTx timeout') (approve_confirmation w))
          (\<lambda>approveReceipt.
        seq (emit (SpinnerSucceed ''6/8 - Transfer approval confirmed''))
       (return (Some approveReceipt))))))))
      else
        seq (emit (SpinnerSucceed ''3/8 - Skipped''))
       (seq (emit (SpinnerSucceed ''4/8 - Skipped''))
       (seq (emit (SpinnerSucceed ''5/8 - Skipped''))
       (seq (emit (SpinnerSucceed ''6/8 - Skipped''))
       (return None)))))"

text \<open>Lines 107 to 113: the deposit itself.\<close>

definition complete_step :: "int \<Rightarrow> options \<Rightarrow> int option \<Rightarrow> env \<Rightarrow> txReceipt run" where
  "complete_step niiBalance opts timeout' w =
     seq (emit (SpinnerStart ''7/8 - Registering nahmii deposit''))
    (bind (call (Submit Complete (StrArg (formatUnits w niiBalance 15)) opts) (complete_tx w))
       (\<lambda>pendingCompleteTx.
     seq (emit (SpinnerSucceed ''7/8 - nahmii deposit registered''))
    (seq (emit (SpinnerStart ''8/8 - Confirming nahmii deposit''))
    (bind (call (GetTransactionConfirmation Complete pendingCompleteTx timeout') (complete_confirmation w))
       (\<lambda>completeReceipt.
     seq (emit (SpinnerSucceed (''8/8 - nahmii deposit of '' @ toString niiBalance @ '' NII confirmed'')))
    (return completeReceipt))))))"

text \<open>Lines 53 to 118: the body of the outer try after the opening balance.\<close>

definition release_and_deposit :: "int option \<Rightarrow> options \<Rightarrow> int option \<Rightarrow> env \<Rightarrow> unit run" where
  "release_and_deposit period' opts timeout' w =
     bind (release_step period' opts timeout' w) (\<lambda>releaseReceipt.
     bind (call BalanceOf (balance_depositing w)) (\<lambda>niiBalance.
     seq (emit (Dbg (''Depositing: '' @ formatUnits w niiBalance 15 @ '' NII'')))
    (seq (emit (SpinnerStart ''Checking allowance''))
    (bind (call GetDepositAllowance (deposit_allowance w)) (\<lambda>allowance.
     seq (emit (SpinnerSucceed (''Allowance retrieved: '' @ toString allowance)))
    (bind (approve_steps niiBalance allowance opts timeout' w) (\<lambda>approveReceipt.
     bind (complete_step niiBalance opts timeout' w) (\<lambda>completeReceipt.
     seq (emit (ConsoleError ''Please allow a few minutes for the nahmii balance to be updated!''))
    (emit (ConsoleLog (map reduceReceipt [releaseReceipt, approveReceipt, Some completeReceipt])))))))))))"

text \<open>Lines 47 to 118: the body of the outer try.\<close>

definition claim_and_deposit :: "int option \<Rightarrow> options \<Rightarrow> int option \<Rightarrow> env \<Rightarrow> unit run" where
  "claim_and_deposit period' opts timeout' w =
     bind (call BalanceOf (balance_opening w)) (\<lambda>niiBalance.
     seq (emit (Dbg (''Opening on-chain balance: '' @ formatUnits w niiBalance 15 @ '' NII'')))
    (release_and_deposit period' opts timeout' w))"

text \<open>
  Lines 39 to 130: the provider, the private key and the token contract are obtained
  before the try; the catch wraps the error; the finally reads the balance once more and
  then stops the provider's polling. The statements that await nothing (loading the
  configuration and the contract module, constructing the wallet, the spinner and the
  revenue token manager) are taken not to throw and leave no event.
\<close>

definition workflow :: "int option \<Rightarrow> options \<Rightarrow> int option \<Rightarrow> env \<Rightarrow> unit run" where
  "workflow period' opts timeout' w =
     seq (call ProviderFrom (provider_from w))
    (seq (call PrivateKey (private_key w))
    (seq (call Erc20ContractFrom (erc20_contract w))
    (try_finally
       (try_catch (claim_and_deposit period' opts timeout' w)
          (\<lambda>err.
           seq (emit (Dbg (message err)))
          (seq (emit (SpinnerFail None))
          (throw (Error (''Claiming NII failed: '' @ message err))))))
       (bind (call BalanceOf (balance_closing w)) (\<lambda>niiBalance.
        seq (emit (Dbg (''Closing on-chain balance: '' @ formatUnits w niiBalance 15 @ '' NII'')))
       (emit StopUpdate))))))"

text \<open>The handler of nii.js, lines 30 to 131.\<close>

definition handler :: "nii_argv \<Rightarrow> env \<Rightarrow> unit run" where
  "handler argv w =
     (case nii_settings argv of
        Inl e \<Rightarrow> throw e
      | Inr (period', opts, timeout') \<Rightarrow> workflow period' opts timeout' w)"

section \<open>The range of a fee claim (claim-commands/fees.js)\<close>

text \<open>
  \<^verbatim>\<open>parseInt(string)\<close> with no radix, as ECMAScript defines it: leading white space is
  skipped, a sign is read, \<^verbatim>\<open>0x\<close> or \<^verbatim>\<open>0X\<close> selects radix 16, and the longest run of
  digits of the radix is the number; \<open>NaN\<close> (here \<open>None\<close>) when that run is empty. What
  follows the digits is ignored. A \<open>char\<close> stands for a code unit below 256, so a text
  with other characters is outside the model; the white space among these code units is
  the tabulator, the line feed, the vertical tabulator, the form feed, the carriage
  return, the space and the no-break space. The value is the exact integer of the digits:
  JavaScript returns the double nearest to it, which is that integer when it is below
  \<open>2\<^sup>5\<^sup>3\<close>, as it is for every text of at most 15 characters (\<open>parseInt_exact\<close>
  below).
\<close>

definition is_space :: "char \<Rightarrow> bool" where
  "is_space c =
     (c \<in> set [CHR 0x09, CHR 0x0A, CHR 0x0B, CHR 0x0C, CHR 0x0D, CHR '' '', CHR 0xA0])"

definition digit_value :: "char \<Rightarrow> nat option" where
  "digit_value c =
     map_of
       [(CHR ''0'', 0), (CHR ''1'', 1), (CHR ''2'', 2), (CHR ''3'', 3), (CHR ''4'', 4),
        (CHR ''5'', 5), (CHR ''6'', 6), (CHR ''7'', 7), (CHR ''8'', 8), (CHR ''9'', 9),
        (CHR ''a'', 10), (CHR ''b'', 11), (CHR ''c'', 12), (CHR ''d'', 13), (CHR ''e'', 14),
        (CHR ''f'', 15), (CHR ''A'', 10), (CHR ''B'', 11), (CHR ''C'', 12), (CHR ''D'', 13),
        (CHR ''E'', 14), (CHR ''F'', 15)] c"

definition is_digit :: "nat \<Rightarrow> char \<Rightarrow> bool" where
  "is_digit radix c = (case digit_value c of None \<Rightarrow> False | Some d \<Rightarrow> d < radix)"

definition digits_value :: "nat \<Rightarrow> string \<Rightarrow> nat" where
  "digits_value radix ds = foldl (\<lambda>acc c. acc * radix + the (digit_value c)) 0 ds"

definition strip_sign :: "string \<Rightarrow> int \<times> string" where
  "strip_sign s =
     (case s of
        [] \<Rightarrow> (1, [])
      | c # cs \<Rightarrow> if c = CHR ''-'' then (- 1, cs) else if c = CHR ''+'' then (1, cs) else (1, s))"

definition strip_prefix :: "string \<Rightarrow> nat \<times> string" where
  "strip_prefix s =
     (case s of
        a # b # cs \<Rightarrow>
          if a = CHR ''0'' \<and> (b = CHR ''x'' \<or> b = CHR ''X'') then (16, cs) else (10, s)
      | _ \<Rightarrow> (10, s))"

definition parseInt :: "string \<Rightarrow> int option" where
  "parseInt str =
     (case strip_sign (dropWhile is_space str) of (sign, s) \<Rightarrow>
     (case strip_prefix s of (radix, s') \<Rightarrow>
        (let ds = takeWhile (is_digit radix) s'
         in if ds = [] then None else Some (sign * int (digits_value radix ds)))))"

text \<open>\<^verbatim>\<open>str.split(c)\<close>: the pieces of \<open>str\<close> between the occurrences of \<open>c\<close>.\<close>

fun split :: "char \<Rightarrow> string \<Rightarrow> string list" where
  "split c [] = [[]]"
| "split c (x # xs) =
     (if x = c then [] # split c xs
      else (case split c xs of [] \<Rightarrow> [[x]] | p # ps \<Rightarrow> (x # p) # ps))"

text \<open>Lines 339 to 351 of fees.js.\<close>

definition validateBlock :: "string \<Rightarrow> string \<Rightarrow> error + int" where
  "validateBlock index name =
     (case parseInt index of
        None \<Rightarrow> Inl (Error (name @ '' block number must be a number higher than 0.''))
      | Some i \<Rightarrow>
          if i < 0 then Inl (Error (name @ '' block number must be a number higher than 0.''))
          else Inr i)"

definition validateAccrual :: "string \<Rightarrow> string \<Rightarrow> error + int" where
  "validateAccrual index name =
     (case parseInt index of
        None \<Rightarrow> Inl (Error (name @ '' accrual index must be a number higher than 0.''))
      | Some i \<Rightarrow>
          if i < 0 then Inl (Error (name @ '' accrual index must be a number higher than 0.''))
          else Inr i)"

text \<open>\<^verbatim>\<open>Symbol.for('block')\<close> and \<^verbatim>\<open>Symbol.for('accrual')\<close>.\<close>

datatype range_type = blockSymbol | accrualSymbol

record range =
  rtype :: range_type
  rfirst :: int
  rlast :: int

text \<open>
  \<^verbatim>\<open>const [first, last] = text.split('-')\<close>: the first piece, and the second piece
  when there is one (\<open>None\<close> is \<^verbatim>\<open>undefined\<close>).
\<close>

definition first_and_last :: "string \<Rightarrow> string \<times> string option" where
  "first_and_last s =
     (case split (CHR ''-'') s of
        [] \<Rightarrow> ([], None)
      | [a] \<Rightarrow> (a, None)
      | a # b # rest \<Rightarrow> (a, Some b))"

text \<open>\<^verbatim>\<open>last || first\<close>: \<^verbatim>\<open>undefined\<close> and the empty string are falsy.\<close>

definition or_first :: "string option \<Rightarrow> string \<Rightarrow> string" where
  "or_first l f = (case l of None \<Rightarrow> f | Some b \<Rightarrow> if b = [] then f else b)"

definition truthy :: "string option \<Rightarrow> bool" where
  "truthy s = (case s of None \<Rightarrow> False | Some b \<Rightarrow> b \<noteq> [])"

text \<open>
  Lines 230 to 246 of the handler of fees.js: the range from \<^verbatim>\<open>--blocks\<close> or from
  \<^verbatim>\<open>--accruals\<close> (\<open>None\<close> when the option is absent); \<open>Inr None\<close> is the range left
  \<^verbatim>\<open>undefined\<close> when neither is given.
\<close>

definition fees_range :: "string option \<Rightarrow> string option \<Rightarrow> error + range option" where
  "fees_range blocks accruals =
     (if truthy blocks then
        (case first_and_last (the blocks) of (firstBlock, lastBlock) \<Rightarrow>
        (case validateBlock firstBlock ''First'' of Inl e \<Rightarrow> Inl e | Inr f \<Rightarrow>
        (case validateBlock (or_first lastBlock firstBlock) ''Last'' of Inl e \<Rightarrow> Inl e | Inr l \<Rightarrow>
           Inr (Some \<lparr>rtype = blockSymbol, rfirst = f, rlast = l\<rparr>))))
      else if truthy accruals then
        (case first_and_last (the accruals) of (firstAccrualIndex, lastAccrualIndex) \<Rightarrow>
        (case validateAccrual firstAccrualIndex ''First'' of Inl e \<Rightarrow> Inl e | Inr f \<Rightarrow>
        (case validateAccrual (or_first lastAccrualIndex firstAccrualIndex) ''Last'' of Inl e \<Rightarrow> Inl e | Inr l \<Rightarrow>
           Inr (Some \<lparr>rtype = accrualSymbol, rfirst = f, rlast = l\<rparr>))))
      else Inr None)"

section \<open>The amount of a payment (the earlier pay.js, with \<^verbatim>\<open>parseFloat\<close>)\<close>

text \<open>
  A JavaScript number is an IEEE 754 double. A positive finite double is \<open>m * 2\<^sup>e\<close> for a
  significand of at most 53 bits; \<open>Double m e\<close> stands for that value. Arithmetic is the
  exact result rounded to the nearest double, ties to the even significand. The model
  covers the normal range (no overflow, no subnormal numbers).
\<close>

datatype double = Double nat int

definition double_value :: "double \<Rightarrow> rat" where
  "double_value x = (case x of Double m e \<Rightarrow> of_nat m * (if 0 \<le> e then 2 ^ nat e else 1 / 2 ^ nat (- e)))"

fun bit_length :: "nat \<Rightarrow> nat" where
  "bit_length n = (if n = 0 then 0 else Suc (bit_length (n div 2)))"

declare bit_length.simps [simp del]

text \<open>The integer nearest to \<open>p / q\<close>, ties to the even one.\<close>

definition round_half_even :: "nat \<Rightarrow> nat \<Rightarrow> nat" where
  "round_half_even p q =
     (let n = p div q; r = p mod q
      in if 2 * r < q then n else if q < 2 * r then n + 1 else if even n then n else n + 1)"

text \<open>\<open>p / q\<close> times \<open>2\<^sup>s\<close>, as a fraction.\<close>

definition scale :: "nat \<Rightarrow> nat \<Rightarrow> int \<Rightarrow> nat \<times> nat" where
  "scale p q s = (if 0 \<le> s then (p * 2 ^ nat s, q) else (p, q * 2 ^ nat (- s)))"

text \<open>
  The double nearest to \<open>p / q\<close>: the fraction is scaled by the power of two that puts
  it into \<open>[2\<^sup>5\<^sup>2, 2\<^sup>5\<^sup>3)\<close> and rounded there.
\<close>

definition to_double :: "nat \<Rightarrow> nat \<Rightarrow> double" where
  "to_double p q =
     (let s0 = 52 - (int (bit_length p) - int (bit_length q));
          s = (case scale p q s0 of (p0, q0) \<Rightarrow> if 2 ^ 52 * q0 \<le> p0 then s0 else s0 + 1)
      in case scale p q s of (p', q') \<Rightarrow> Double (round_half_even p' q') (- s))"

definition multiply :: "double \<Rightarrow> double \<Rightarrow> double" where
  "multiply x y =
     (case x of Double m1 e1 \<Rightarrow>
     (case y of Double m2 e2 \<Rightarrow>
     (case scale (m1 * m2) 1 (e1 + e2) of (p, q) \<Rightarrow> to_double p q)))"

text \<open>
  An amount written as digits, with or without a point and more digits: the digits as a
  number, and how many of them follow the point. \<open>None\<close> for any other text.
\<close>

definition decimal_of :: "string \<Rightarrow> (nat \<times> nat) option" where
  "decimal_of a =
     (let whole = takeWhile (is_digit 10) a; rest = dropWhile (is_digit 10) a
      in if whole = [] then None
         else if rest = [] then Some (digits_value 10 whole, 0)
         else if hd rest = CHR ''.'' \<and> tl rest \<noteq> [] \<and> list_all (is_digit 10) (tl rest)
         then Some (digits_value 10 (whole @ tl rest), length (tl rest))
         else None)"

text \<open>
  \<^verbatim>\<open>parseFloat\<close> on such an amount (other texts, among them exponents, signs and a
  trailing rest, are outside this model and give \<open>None\<close>).
\<close>

definition parseFloat :: "string \<Rightarrow> double option" where
  "parseFloat a = map_option (\<lambda>(m, k). to_double m (10 ^ k)) (decimal_of a)"

text \<open>
  Line 19 of the earlier pay.js (src/unnamed/part_000):
  \<^verbatim>\<open>parseFloat(argv.amount) * 10 ** tokenDefinition.decimals\<close>, the number whose
  \<^verbatim>\<open>toString()\<close> is the amount of the payment.
\<close>

definition pay_amount :: "string \<Rightarrow> nat \<Rightarrow> double option" where
  "pay_amount amount decimals =
     map_option (\<lambda>x. multiply x (to_double (10 ^ decimals) 1)) (parseFloat amount)"

section \<open>The pay command (commands/pay.js)\<close>

text \<open>
  What \<^verbatim>\<open>pay <amount> <currency> to <recipient>\<close> is given; the builder keeps the
  amount a string (line 11).
\<close>

record pay_argv =
  amount :: string
  currency :: string
  recipient :: string

text \<open>An entry of the supported tokens, and what \<open>getCurrencyBySymbol\<close> returns.\<close>

record currencyDefinition =
  def_currency :: string
  def_decimals :: nat
  def_symbol :: string

text \<open>
  What the handler of pay.js meets outside this repository. Functions of the language
  and of libraries: \<^verbatim>\<open>String.prototype.toUpperCase\<close>, \<^verbatim>\<open>prefix0x\<close> of the SDK's
  utilities, \<^verbatim>\<open>ethers.utils.parseUnits\<close> (which throws on a text it does not accept),
  and the message of the \<^verbatim>\<open>TypeError\<close> that the engine throws for a property of
  \<^verbatim>\<open>undefined\<close>. Configuration: the address and the secret of the wallet, and the
  \<^verbatim>\<open>LOG_LEVEL\<close> of the process. Answers: the supported tokens, the private key and the
  registration of the payment.
\<close>

record pay_env =
  toUpperCase :: "string \<Rightarrow> string"
  prefix0x :: "string \<Rightarrow> string"
  parseUnits :: "string \<Rightarrow> nat \<Rightarrow> error + int"
  undefined_message :: string
  wallet_address :: string
  wallet_secret :: string
  log_level :: "string option"
  supported_tokens :: "error + currencyDefinition list"
  config_private_key :: "error + string"
  payment_register :: "error + string"

text \<open>
  The calls of the handler, in the order of the source: the provider is constructed
  (line 17), the supported tokens are fetched (line 52), the payment is constructed from
  the amount, the currency, the sender and the recipient (line 25), the private key is
  obtained from the secret (line 28), the payment is signed (line 29) and registered
  (line 31), the response is printed (line 33); the error is printed when the log level
  is \<^verbatim>\<open>debug\<close> (line 37). The constructors, \<^verbatim>\<open>prefix0x\<close> and \<^verbatim>\<open>sign\<close> are taken
  not to throw.
\<close>

datatype pay_event =
    NewStriimProvider
  | GetSupportedTokens "error + currencyDefinition list"
  | NewPayment string string string string
  | ConfigPrivateKey string "error + string"
  | PaymentSign string
  | PaymentRegister "error + string"
  | ConsoleDebug string
  | ConsoleErrorDebug string

text \<open>
  Lines 43 to 54. \<^verbatim>\<open>tokens.find\<close> is \<^verbatim>\<open>undefined\<close> (here \<open>None\<close>) when no token has
  the symbol.
\<close>

definition getCurrencyBySymbol :: "string \<Rightarrow> pay_env \<Rightarrow> (pay_event, currencyDefinition option) run_of" where
  "getCurrencyBySymbol symbol w =
     (if toUpperCase w symbol = ''ETH'' then
        return (Some \<lparr>def_currency = prefix0x w (concat (replicate 20 ''00'')),
                      def_decimals = 18,
                      def_symbol = ''ETH''\<rparr>)
      else
        bind (call GetSupportedTokens (supported_tokens w)) (\<lambda>tokens.
        return (find (\<lambda>t. toUpperCase w (def_symbol t) = toUpperCase w symbol) tokens)))"

text \<open>
  Lines 13 to 40: the handler of pay.js. Line 20 reads \<^verbatim>\<open>currencyDefinition.decimals\<close>,
  which throws when the currency was not found, and converts the amount with
  \<^verbatim>\<open>parseUnits\<close>; nothing else looks at the amount.
\<close>

definition pay_handler :: "pay_argv \<Rightarrow> pay_env \<Rightarrow> (pay_event, unit) run_of" where
  "pay_handler argv w =
     try_catch
       (seq (emit NewStriimProvider)
       (bind (getCurrencyBySymbol (currency argv) w) (\<lambda>found.
        bind (case found of
                None \<Rightarrow> throw (Error (undefined_message w))
              | Some c \<Rightarrow> return c) (\<lambda>currencyDefinition.
        bind ([], parseUnits w (amount argv) (def_decimals currencyDefinition)) (\<lambda>amount'.
        seq (emit (NewPayment (toString amount')
                     (prefix0x w (def_currency currencyDefinition))
                     (prefix0x w (wallet_address w))
                     (prefix0x w (recipient argv))))
       (bind (call (ConfigPrivateKey (wallet_secret w)) (config_private_key w)) (\<lambda>privateKey.
        seq (emit (PaymentSign privateKey))
       (bind (call PaymentRegister (payment_register w)) (\<lambda>response.
        emit (ConsoleDebug response))))))))))
       (\<lambda>err.
        seq (if log_level w = Some ''debug'' then emit (ConsoleErrorDebug (message err))
             else return ())
       (throw (Error (''Payment failed: '' @ message err))))"

section \<open>Reading a run\<close>

text \<open>The transactions submitted in a run, in order.\<close>

fun submitted :: "event list \<Rightarrow> step list" where
  "submitted [] = []"
| "submitted (Submit s a opts r # es) = s # submitted es"
| "submitted (e # es) = submitted es"

text \<open>The reports written to the standard output by \<^verbatim>\<open>console.log\<close>, in order.\<close>

fun printed :: "event list \<Rightarrow> reduced option list list" where
  "printed [] = []"
| "printed (ConsoleLog out # es) = out # printed es"
| "printed (e # es) = printed es"

text \<open>How often the provider's polling was stopped.\<close>

fun stopped :: "event list \<Rightarrow> nat" where
  "stopped [] = 0"
| "stopped (StopUpdate # es) = Suc (stopped es)"
| "stopped (e # es) = stopped es"

text \<open>The steps whose confirmation arrived, in order.\<close>

fun confirmed :: "event list \<Rightarrow> step list" where
  "confirmed [] = []"
| "confirmed (GetTransactionConfirmation s h t (Inr r) # es) = s # confirmed es"
| "confirmed (e # es) = confirmed es"

text \<open>The submissions and the waits for a confirmation, with all their arguments.\<close>

fun is_transaction :: "event \<Rightarrow> bool" where
  "is_transaction (Submit s a opts r) = True"
| "is_transaction (GetTransactionConfirmation s h t r) = True"
| "is_transaction e = False"

text \<open>The steps that the allowance decides on, among those submitted.\<close>

definition allowance_steps :: "event list \<Rightarrow> step list" where
  "allowance_steps t = filter (\<lambda>s. s = Clear \<or> s = Approve) (submitted t)"

text \<open>
  The balance as last read from the chain in these events, \<open>b\<close> before them; a reading
  made before the release was submitted, or before its confirmation was awaited, does
  not count.
\<close>

fun reading :: "int option \<Rightarrow> event list \<Rightarrow> int option" where
  "reading b [] = b"
| "reading b (Submit Release a opts r # es) = reading None es"
| "reading b (GetTransactionConfirmation Release h t r # es) = reading None es"
| "reading b (BalanceOf (Inr v) # es) = reading (Some v) es"
| "reading b (e # es) = reading b es"

text \<open>
  The step whose submission or confirmation this event shows to have failed, with the
  error.
\<close>

definition rejected :: "event \<Rightarrow> (step \<times> error) option" where
  "rejected e =
     (case e of
        Submit s a opts (Inl err) \<Rightarrow> Some (s, err)
      | GetTransactionConfirmation s h t (Inl err) \<Rightarrow> Some (s, err)
      | _ \<Rightarrow> None)"

text \<open>
  A property of every event of a run together with what came before it and what follows
  it: the executable form of "whenever the run is \<open>pre @ e # post\<close>, \<open>P pre e post\<close>".
\<close>

fun each_split :: "(event list \<Rightarrow> event \<Rightarrow> event list \<Rightarrow> bool) \<Rightarrow> event list \<Rightarrow> event list \<Rightarrow> bool" where
  "each_split P pre [] = True"
| "each_split P pre (e # es) = (P pre e es \<and> each_split P (pre @ [e]) es)"

text \<open>
  Progress output: the spinner's start and success lines, the debug log and the note on
  the standard error. \<open>core\<close> is a run without them: the calls to the provider, the
  wallet and the contracts, the spinner's failure mark, the report and the clean-up.
\<close>

fun is_core :: "event \<Rightarrow> bool" where
  "is_core (SpinnerStart s) = False"
| "is_core (SpinnerSucceed s) = False"
| "is_core (Dbg s) = False"
| "is_core (ConsoleError s) = False"
| "is_core e = True"

definition core :: "event list \<Rightarrow> event list" where
  "core t = filter is_core t"

definition core_run :: "'a run \<Rightarrow> 'a run" where
  "core_run m = (core (fst m), snd m)"

text \<open>A property of a run, as a predicate of its events and its outcome.\<close>

definition holds :: "'a run \<Rightarrow> (event list \<Rightarrow> error + 'a \<Rightarrow> bool) \<Rightarrow> bool" where
  "holds m Q = Q (fst m) (snd m)"

section \<open>The rules of the workflow, as properties of one event of a run\<close>

text \<open>
  What holds at an event \<open>e\<close> of a run that shows a step to have failed, \<open>post\<close> being
  the calls after it and \<open>r\<close> the outcome of the run. After a failed release: the
  failure is shown by the spinner, the balance is read again, a later step is submitted
  when the balance and the allowance can be read, and a report printed later has no
  receipt in its first slot. After any other failed step: the spinner fails, the
  clean-up runs, and nothing else; the handler throws.
\<close>

definition failure_policy :: "env \<Rightarrow> error + unit \<Rightarrow> event list \<Rightarrow> event \<Rightarrow> event list \<Rightarrow> bool" where
  "failure_policy w r pre e post =
     (case rejected e of
        None \<Rightarrow> True
      | Some (s, err) \<Rightarrow>
          (if s = Release then
             take 2 post = [SpinnerFail (Some (message err)), BalanceOf (balance_depositing w)] \<and>
             list_all (\<lambda>out. hd out = None) (printed post) \<and>
             (isl (balance_depositing w) \<or> isl (deposit_allowance w) \<or>
              (submitted post \<noteq> [] \<and> Release \<notin> set (submitted post)))
           else
             post = SpinnerFail None # BalanceOf (balance_closing w) #
                    (case balance_closing w of Inl x \<Rightarrow> [] | Inr b \<Rightarrow> [StopUpdate]) \<and>
             r = (case balance_closing w of
                    Inl x \<Rightarrow> Inl x
                  | Inr b \<Rightarrow> Inl (Error (''Claiming NII failed: '' @ message err)))))"

text \<open>The three cases of the allowance, for the balance \<open>R\<close> and the allowance \<open>A\<close>.\<close>

definition skip_rule :: "env \<Rightarrow> int \<Rightarrow> int \<Rightarrow> event list \<Rightarrow> bool" where
  "skip_rule w R A t =
     ((allowance_steps t = [] \<longleftrightarrow> R \<le> A) \<and>
      (allowance_steps t = [Approve] \<longleftrightarrow> A = 0 \<and> 0 < R) \<and>
      (\<not> isl (clear_tx w) \<and> \<not> isl (clear_confirmation w) \<longrightarrow>
         (allowance_steps t = [Clear, Approve] \<longleftrightarrow> 0 < A \<and> A < R)))"

text \<open>The report: none, or one of three slots for the release, the approval and the deposit.\<close>

definition report_rule :: "env \<Rightarrow> event list \<Rightarrow> bool" where
  "report_rule w t =
     (printed t = [] \<or>
      printed t =
        [[(case release_tx w of Inl x \<Rightarrow> None | Inr h \<Rightarrow>
             (case release_confirmation w of Inl x \<Rightarrow> None | Inr r \<Rightarrow> reduceReceipt (Some r))),
          (if Approve \<in> set (submitted t)
           then (case approve_confirmation w of Inl x \<Rightarrow> None | Inr r \<Rightarrow> reduceReceipt (Some r))
           else None),
          (case complete_confirmation w of Inl x \<Rightarrow> None | Inr r \<Rightarrow> reduceReceipt (Some r))]] \<and>
      \<not> isl (complete_confirmation w) \<and>
      (Approve \<in> set (submitted t) \<longrightarrow> \<not> isl (approve_confirmation w)))"

text \<open>No step but the release has failed, as far as this event shows.\<close>

definition no_required_failure :: "event \<Rightarrow> bool" where
  "no_required_failure e = (case rejected e of None \<Rightarrow> True | Some (s, err) \<Rightarrow> s = Release)"

text \<open>
  What holds where the report is printed: it is the only one, nothing is submitted after
  it, and every step submitted before it, the release apart, has been confirmed.
\<close>

definition report_last :: "event list \<Rightarrow> event \<Rightarrow> event list \<Rightarrow> bool" where
  "report_last pre e post =
     (case e of
        ConsoleLog out \<Rightarrow>
          submitted post = [] \<and> printed pre = [] \<and> printed post = [] \<and>
          list_all (\<lambda>s. s = Release \<or> s \<in> set (confirmed pre)) (submitted pre) \<and>
          Complete \<in> set (confirmed pre)
      | _ \<Rightarrow> True)"

text \<open>
  What holds where the approval or the deposit is submitted: the release was submitted
  before, the balance has been read since, and the amount is that balance, formatted
  with 15 decimals.
\<close>

definition amount_rule :: "env \<Rightarrow> event list \<Rightarrow> event \<Rightarrow> event list \<Rightarrow> bool" where
  "amount_rule w pre e post =
     (case e of
        Submit s a opts r \<Rightarrow>
          s = Approve \<or> s = Complete \<longrightarrow>
            Release \<in> set (submitted pre) \<and>
            Inr (reading None pre) = map_sum id Some (balance_depositing w) \<and>
            Some a = map_option (\<lambda>R. StrArg (formatUnits w R 15)) (reading None pre)
      | _ \<Rightarrow> True)"

text \<open>
  The deposit was submitted with the balance to deposit as its amount, formatted with 15
  decimals, and with these options.
\<close>

definition deposit_submitted :: "env \<Rightarrow> options \<Rightarrow> event list \<Rightarrow> bool" where
  "deposit_submitted w opts t =
     (case balance_depositing w of
        Inl x \<Rightarrow> False
      | Inr R \<Rightarrow> Submit Complete (StrArg (formatUnits w R 15)) opts (complete_tx w) \<in> set t)"

text \<open>The options and the timeout that a transaction of the run was given.\<close>

definition uses_settings :: "options \<Rightarrow> int option \<Rightarrow> event \<Rightarrow> bool" where
  "uses_settings opts tmo e =
     (case e of
        Submit s a opts' r \<Rightarrow> opts' = opts
      | GetTransactionConfirmation s h tmo' r \<Rightarrow> tmo' = tmo
      | _ \<Rightarrow> True)"

text \<open>The provider was obtained, and the chain could be read when the handler ended.\<close>

definition cleanup_reached :: "env \<Rightarrow> bool" where
  "cleanup_reached w =
     (\<not> isl (provider_from w) \<and> \<not> isl (private_key w) \<and> \<not> isl (erc20_contract w) \<and>
      \<not> isl (balance_closing w))"

section \<open>Concrete inputs for the examples\<close>

text \<open>
  An instance of \<open>formatUnits\<close> for the examples, after the ethers library: the whole
  part, a point, and the fraction of \<open>d\<close> digits without its trailing zeros (one digit
  at least).
\<close>

definition ethers_formatUnits :: "int \<Rightarrow> nat \<Rightarrow> string" where
  "ethers_formatUnits v d =
     (let a = nat \<bar>v\<bar>;
          fraction = toString_nat (a mod 10 ^ d);
          padded = replicate (d - length fraction) (CHR ''0'') @ fraction;
          stripped = rev (dropWhile (\<lambda>c. c = CHR ''0'') (rev padded))
      in (if v < 0 then ''-'' else []) @ toString_nat (a div 10 ^ d) @ ''.'' @
         (if stripped = [] then ''0'' else stripped))"

definition example_argv :: nii_argv where
  "example_argv = \<lparr>period = Num 1, gas = Num 800000, price = Num 12, timeout = Num 60\<rparr>"

text \<open>
  A run in which every call succeeds: the wallet holds 5 NII (15 decimals) after the
  release, and the deposit allowance left from an earlier run is 2 NII.
\<close>

definition example_env :: env where
  "example_env =
     \<lparr>formatUnits = ethers_formatUnits,
      provider_from = Inr (),
      private_key = Inr (),
      erc20_contract = Inr (),
      balance_opening = Inr 3000000000000000,
      release_tx = Inr ''0xa1'',
      release_confirmation = Inr \<lparr>transactionHash = ''0xa1'', blockNumber = 101, gasUsed = 50000\<rparr>,
      balance_depositing = Inr 5000000000000000,
      deposit_allowance = Inr 2000000000000000,
      clear_tx = Inr ''0xa2'',
      clear_confirmation = Inr \<lparr>transactionHash = ''0xa2'', blockNumber = 102, gasUsed = 30000\<rparr>,
      approve_tx = Inr ''0xa3'',
      approve_confirmation = Inr \<lparr>transactionHash = ''0xa3'', blockNumber = 103, gasUsed = 45000\<rparr>,
      complete_tx = Inr ''0xa4'',
      complete_confirmation = Inr \<lparr>transactionHash = ''0xa4'', blockNumber = 104, gasUsed = 90000\<rparr>,
      balance_closing = Inr 0\<rparr>"

text \<open>
  Instances of the functions that the handler of pay.js takes from outside, for the
  examples. \<^verbatim>\<open>parseUnits\<close> after the ethers library, on an amount written as digits
  with or without a fraction: the amount times \<open>10\<^sup>d\<close>, or an error when the fraction
  has more than \<open>d\<close> digits.
\<close>

definition ethers_parseUnits :: "string \<Rightarrow> nat \<Rightarrow> error + int" where
  "ethers_parseUnits a d =
     (case decimal_of a of
        None \<Rightarrow> Inl (Error ''invalid decimal value'')
      | Some (m, k) \<Rightarrow>
          if d < k then Inl (Error ''underflow occurred'')
          else Inr (int (m * 10 ^ (d - k))))"

definition ascii_upper :: "char \<Rightarrow> char" where
  "ascii_upper c =
     (case map_of (zip ''abcdefghijklmnopqrstuvwxyz'' ''ABCDEFGHIJKLMNOPQRSTUVWXYZ'') c of
        None \<Rightarrow> c
      | Some u \<Rightarrow> u)"

definition sdk_prefix0x :: "string \<Rightarrow> string" where
  "sdk_prefix0x s = (if take 2 s = ''0x'' then s else ''0x'' @ s)"

text \<open>
  A run of the pay command in which every call succeeds; the tokens are those of the
  test of the command.
\<close>

definition example_pay_env :: pay_env where
  "example_pay_env =
     \<lparr>toUpperCase = map ascii_upper,
      prefix0x = sdk_prefix0x,
      parseUnits = ethers_parseUnits,
      undefined_message = ''Cannot read property decimals of undefined'',
      wallet_address = ''0x1234567890123456789012345678901234567891'',
      wallet_secret = ''expected secret'',
      log_level = None,
      supported_tokens =
        Inr [\<lparr>def_currency = ''0x0000000000000000000000000000000000000001'',
               def_decimals = 15, def_symbol = ''HBT''\<rparr>,
             \<lparr>def_currency = ''0x0000000000000000000000000000000000000002'',
               def_decimals = 7, def_symbol = ''WTF''\<rparr>],
      config_private_key = Inr ''a private key'',
      payment_register = Inr ''{}''\<rparr>"

section \<open>How properties of runs are proved\<close>

text \<open>
  A property of a composed run is a property of its parts: one rule for each way of
  composing. The rule for a call asks for both of its outcomes, in the order of the
  program.
\<close>

lemma holds_return: "holds (return x) Q = Q [] (Inr x)"
  by (simp add: holds_def return_def)

lemma holds_throw: "holds (throw e) Q = Q [] (Inl e)"
  by (simp add: holds_def throw_def)

lemma holds_emit: "holds (emit ev) Q = Q [ev] (Inr ())"
  by (simp add: holds_def emit_def)

lemma holds_call:
  "holds (call ev x) Q =
     ((\<forall>e. x = Inl e \<longrightarrow> Q [ev (Inl e)] (Inl e)) \<and> (\<forall>v. x = Inr v \<longrightarrow> Q [ev (Inr v)] (Inr v)))"
  by (cases x) (simp_all add: holds_def call_def)

lemma holds_bind:
  "holds (bind m k) Q =
     holds m (\<lambda>t r. case r of Inl e \<Rightarrow> Q t (Inl e)
                    | Inr x \<Rightarrow> holds (k x) (\<lambda>t' r'. Q (t @ t') r'))"
  by (simp add: holds_def bind_def split: prod.splits sum.splits)

lemma holds_seq:
  "holds (seq m k) Q =
     holds m (\<lambda>t r. case r of Inl e \<Rightarrow> Q t (Inl e)
                    | Inr x \<Rightarrow> holds k (\<lambda>t' r'. Q (t @ t') r'))"
  by (simp add: seq_def holds_bind)

lemma holds_try_catch:
  "holds (try_catch m h) Q =
     holds m (\<lambda>t r. case r of Inl e \<Rightarrow> holds (h e) (\<lambda>t' r'. Q (t @ t') r')
                    | Inr x \<Rightarrow> Q t (Inr x))"
  by (simp add: holds_def try_catch_def split: prod.splits sum.splits)

lemma holds_try_finally:
  "holds (try_finally m f) Q =
     holds m (\<lambda>t r. holds f (\<lambda>t' r'. Q (t @ t') (case r' of Inl e \<Rightarrow> Inl e | Inr u \<Rightarrow> r)))"
  by (simp add: holds_def try_finally_def split: prod.splits sum.splits)

lemma holds_if: "holds (if c then m else n) Q = (if c then holds m Q else holds n Q)"
  by simp

lemma holds_core: "holds (core_run m) Q = holds m (\<lambda>t r. Q (core t) r)"
  by (simp add: holds_def core_run_def)

lemma holds_handler:
  "holds (handler argv w) Q =
     (case nii_settings argv of
        Inl e \<Rightarrow> Q [] (Inl e)
      | Inr (p, opts, tmo) \<Rightarrow> holds (workflow p opts tmo w) Q)"
  by (simp add: handler_def holds_def throw_def split: sum.splits prod.splits)

lemmas wp =
  holds_return holds_throw holds_emit holds_call holds_bind holds_seq holds_try_catch
  holds_try_finally holds_if

lemmas nii_defs =
  workflow_def claim_and_deposit_def release_and_deposit_def release_step_def
  approve_steps_def complete_step_def

text \<open>Leaving the progress output out of a run, part by part.\<close>

lemma core_Nil [simp]: "core [] = []"
  by (simp add: core_def)

lemma core_return: "core_run (return x) = return x"
  by (simp add: core_run_def return_def)

lemma core_throw: "core_run (throw e) = throw e"
  by (simp add: core_run_def throw_def)

lemma core_emit: "core_run (emit ev) = (if is_core ev then emit ev else return ())"
  by (simp add: core_run_def core_def emit_def return_def)

lemma core_call: "is_core (ev x) \<Longrightarrow> core_run (call ev x) = call ev x"
  by (simp add: core_run_def core_def call_def)

lemma core_bind: "core_run (bind m k) = bind (core_run m) (\<lambda>x. core_run (k x))"
  by (simp add: core_run_def core_def bind_def split: prod.splits sum.splits)

lemma core_seq: "core_run (seq m k) = seq (core_run m) (core_run k)"
  by (simp add: seq_def core_bind)

lemma core_try_catch: "core_run (try_catch m h) = try_catch (core_run m) (\<lambda>e. core_run (h e))"
  by (simp add: core_run_def core_def try_catch_def split: prod.splits sum.splits)

lemma core_try_finally: "core_run (try_finally m f) = try_finally (core_run m) (core_run f)"
  by (simp add: core_run_def core_def try_finally_def split: prod.splits sum.splits)

lemma core_if: "core_run (if c then m else n) = (if c then core_run m else core_run n)"
  by simp

lemma bind_return: "bind (return x) k = k x"
  by (simp add: bind_def return_def split: prod.splits)

lemma seq_return: "seq (return x) k = k"
  by (simp add: seq_def bind_return)

lemmas core_rules =
  core_return core_throw core_emit core_call core_bind core_seq core_try_catch
  core_try_finally core_if bind_return seq_return

text \<open>What is read from a run does not depend on the progress output.\<close>

lemma submitted_core [simp]: "submitted (core t) = submitted t"
  by (induction t rule: submitted.induct) (simp_all add: core_def)

lemma printed_core [simp]: "printed (core t) = printed t"
  by (induction t rule: printed.induct) (simp_all add: core_def)

lemma stopped_core [simp]: "stopped (core t) = stopped t"
  by (induction t rule: stopped.induct) (simp_all add: core_def)

lemma confirmed_core [simp]: "confirmed (core t) = confirmed t"
  by (induction t rule: confirmed.induct) (simp_all add: core_def)

lemma reading_core [simp]: "reading b (core t) = reading b t"
  by (induction b t rule: reading.induct) (simp_all add: core_def)

lemma allowance_steps_core [simp]: "allowance_steps (core t) = allowance_steps t"
  by (simp add: allowance_steps_def)

lemma rejected_is_core: "rejected e = Some x \<Longrightarrow> is_core e"
  by (cases e) (simp_all add: rejected_def)

lemma in_core: "is_core e \<Longrightarrow> e \<in> set (core t) \<longleftrightarrow> e \<in> set t"
  by (simp add: core_def)

lemma core_split: "t = pre @ e # post \<Longrightarrow> is_core e \<Longrightarrow> core t = core pre @ e # core post"
  by (simp add: core_def)

lemma list_all_core: "(\<And>e. \<not> is_core e \<Longrightarrow> P e) \<Longrightarrow> list_all P (core t) = list_all P t"
  by (induction t) (auto simp add: core_def)

lemma each_splitD: "each_split P xs (pre @ e # post) \<Longrightarrow> P (xs @ pre) e post"
proof (induction pre arbitrary: xs)
  case Nil
  then show ?case by simp
next
  case (Cons a pre)
  then have "each_split P (xs @ [a]) (pre @ e # post)" by simp
  from Cons.IH [OF this] show ?case by simp
qed

text \<open>
  A property of every event of the core of a run of the handler holds wherever the run
  is split at such an event.
\<close>

lemma handler_split:
  assumes all: "\<And>p opts tmo. holds (core_run (workflow p opts tmo w)) (\<lambda>t r. each_split (P r) [] t)"
      and run: "fst (handler argv w) = pre @ e # post"
      and e: "is_core e"
  shows "P (snd (handler argv w)) (core pre) e (core post)"
proof -
  have "holds (core_run (handler argv w)) (\<lambda>t r. each_split (P r) [] t)"
    using all by (simp add: holds_core holds_handler split: sum.splits prod.splits)
  then have "each_split (P (snd (handler argv w))) [] (core pre @ e # core post)"
    using core_split [OF run e] by (simp add: holds_def core_run_def)
  then have "P (snd (handler argv w)) ([] @ core pre) e (core post)"
    by (rule each_splitD)
  then show ?thesis by simp
qed

lemma handler_holds:
  assumes "\<And>p opts tmo. holds (core_run (workflow p opts tmo w)) (\<lambda>t r. Q t r)"
      and "\<And>x. Q [] (Inl x)"
  shows "Q (core (fst (handler argv w))) (snd (handler argv w))"
proof -
  have "holds (core_run (handler argv w)) Q"
    using assms by (simp add: holds_core holds_handler split: sum.splits prod.splits)
  then show ?thesis by (simp add: holds_def core_run_def)
qed

section \<open>The rules hold in every run of the NII claim\<close>

lemma workflow_failure_policy:
  "holds (core_run (workflow p opts tmo w)) (\<lambda>t r. each_split (failure_policy w r) [] t)"
  apply (simp add: nii_defs core_rules cong: if_cong)
  apply (simp add: wp failure_policy_def rejected_def reduceReceipt_def)
  done

lemma workflow_skip_rule:
  assumes "balance_depositing w = Inr R" and "0 \<le> A"
  shows "holds (core_run (workflow p opts tmo w))
           (\<lambda>t r. GetDepositAllowance (Inr A) \<in> set t \<longrightarrow> skip_rule w R A t)"
  apply (simp add: nii_defs core_rules cong: if_cong)
  using assms apply (simp add: wp skip_rule_def allowance_steps_def)
  done

lemma workflow_report_rule:
  "holds (core_run (workflow p opts tmo w)) (\<lambda>t r. report_rule w t)"
  apply (simp add: nii_defs core_rules cong: if_cong)
  apply (simp add: wp report_rule_def reduceReceipt_def)
  done

lemma workflow_report_last:
  "holds (core_run (workflow p opts tmo w))
     (\<lambda>t r. each_split report_last [] t \<and> (printed t = [] \<longrightarrow> isl r) \<and>
            (printed t = [] \<or> list_all no_required_failure t))"
  apply (simp add: nii_defs core_rules cong: if_cong)
  apply (simp add: wp report_last_def no_required_failure_def rejected_def)
  done

lemma workflow_amount_rule:
  "holds (core_run (workflow p opts tmo w)) (\<lambda>t r. each_split (amount_rule w) [] t)"
  apply (simp add: nii_defs core_rules cong: if_cong)
  apply (simp add: wp amount_rule_def)
  done

lemma workflow_deposit_submitted:
  "holds (core_run (workflow p opts tmo w)) (\<lambda>t r. \<not> isl r \<longrightarrow> deposit_submitted w opts t)"
  apply (simp add: nii_defs core_rules cong: if_cong)
  apply (simp add: wp deposit_submitted_def)
  done

lemma workflow_uses_settings:
  "holds (core_run (workflow p opts tmo w)) (\<lambda>t r. list_all (uses_settings opts tmo) t)"
  apply (simp add: nii_defs core_rules cong: if_cong)
  apply (simp add: wp uses_settings_def)
  done

lemma workflow_stopped:
  "holds (core_run (workflow p opts tmo w))
     (\<lambda>t r. stopped t = (if cleanup_reached w then 1 else 0))"
  apply (simp add: nii_defs core_rules cong: if_cong)
  apply (cases "provider_from w"; cases "private_key w"; cases "erc20_contract w";
         cases "balance_closing w"; simp add: wp cleanup_reached_def)
  done

section \<open>Runs on the concrete inputs\<close>

lemmas run_defs =
  return_def throw_def emit_def call_def bind_def seq_def try_catch_def try_finally_def

lemmas settings_defs =
  nii_settings_def validatePeriod_def validateGasLimit_def validateTimeout_def
  validateGasPrice_def parseUnits_gwei_def or_default_def parseInt_number_def js_le_def
  js_lt_def js_gt_def

lemmas example_defs = handler_def nii_defs run_defs settings_defs example_argv_def example_env_def

lemmas parse_defs =
  parseInt_def strip_sign_def strip_prefix_def is_digit_def digit_value_def digits_value_def
  is_space_def

lemmas pay_defs =
  pay_handler_def getCurrencyBySymbol_def return_def throw_def emit_def call_def bind_def seq_def
  try_catch_def

lemmas example_pay_defs =
  example_pay_env_def ethers_parseUnits_def ascii_upper_def sdk_prefix0x_def decimal_of_def
  parse_defs toString_def toString_nat.simps

section \<open>The claims about the NII claim workflow\<close>

text \<open>
  Claim C1. In every run of the handler in which the allowance was read, \<open>A\<close> being the
  allowance read (not negative, as an allowance on the chain is) and \<open>R\<close> the balance to
  deposit: neither the clearing nor the approval is submitted exactly when \<open>A \<ge> R\<close>;
  the approval alone is submitted exactly when \<open>A = 0\<close> and \<open>R > 0\<close>; and, the clearing
  not failing, the clearing and then the approval are submitted exactly when
  \<open>0 < A < R\<close>.
\<close>

theorem allowance_skip_rule:
  assumes read: "GetDepositAllowance (Inr A) \<in> set (fst (handler argv w))"
      and balance: "balance_depositing w = Inr R"
      and A: "0 \<le> A"
  shows "(allowance_steps (fst (handler argv w)) = [] \<longleftrightarrow> R \<le> A) \<and>
         (allowance_steps (fst (handler argv w)) = [Approve] \<longleftrightarrow> A = 0 \<and> 0 < R) \<and>
         (\<not> isl (clear_tx w) \<and> \<not> isl (clear_confirmation w) \<longrightarrow>
            (allowance_steps (fst (handler argv w)) = [Clear, Approve] \<longleftrightarrow> 0 < A \<and> A < R))"
proof -
  let ?t = "fst (handler argv w)"
  have "GetDepositAllowance (Inr A) \<in> set (core ?t) \<longrightarrow> skip_rule w R A (core ?t)"
    by (rule handler_holds) (simp_all add: workflow_skip_rule [OF balance A])
  with read have "skip_rule w R A (core ?t)"
    by (simp add: in_core)
  then show ?thesis
    by (simp add: skip_rule_def)
qed

theorem allowance_skip_rule_witness:
  "allowance_steps (fst (handler example_argv example_env)) = [Clear, Approve] \<and>
   allowance_steps (fst (handler example_argv (example_env\<lparr>deposit_allowance := Inr 0\<rparr>))) = [Approve] \<and>
   allowance_steps (fst (handler example_argv (example_env\<lparr>deposit_allowance := Inr 5000000000000000\<rparr>))) = []"
proof -
  let ?v = "example_env\<lparr>deposit_allowance := Inr 0\<rparr>"
  let ?u = "example_env\<lparr>deposit_allowance := Inr 5000000000000000\<rparr>"
  have 1: "GetDepositAllowance (Inr 2000000000000000) \<in> set (fst (handler example_argv example_env))"
    by (simp add: example_defs)
  have 2: "GetDepositAllowance (Inr 0) \<in> set (fst (handler example_argv ?v))"
    by (simp add: example_defs)
  have 3: "GetDepositAllowance (Inr 5000000000000000) \<in> set (fst (handler example_argv ?u))"
    by (simp add: example_defs)
  have R: "balance_depositing example_env = Inr 5000000000000000"
      "balance_depositing ?v = Inr 5000000000000000" "balance_depositing ?u = Inr 5000000000000000"
    by (simp_all add: example_env_def)
  have clear: "\<not> isl (clear_tx example_env)" "\<not> isl (clear_confirmation example_env)"
    by (simp_all add: example_env_def)
  from allowance_skip_rule [OF 1 R(1)] allowance_skip_rule [OF 2 R(2)]
    allowance_skip_rule [OF 3 R(3)] clear
  show ?thesis by simp
qed

text \<open>
  What follows a failed step, in every run of the handler. Wherever a run shows the
  submission or the confirmation of a step to have failed: if the step is not the
  release, the calls that follow are the spinner's failure mark and the clean-up and
  nothing else, so no step is submitted any more, and the handler throws: the error
  \<open>Claiming NII failed: ...\<close> with the message of the failure when the closing balance
  read succeeds, and the error of that read when it fails. If the step is the release,
  the failure is shown by the spinner with its message, the run goes on by reading the
  balance again, a later step is submitted when the balance and the allowance can be
  read, and a report printed later has no receipt (null) in its first slot.
\<close>

lemma failure_policy_of_the_handler:
  assumes run: "fst (handler argv w) = pre @ e # post"
      and failed: "rejected e = Some (s, err)"
  shows "(s \<noteq> Release \<longrightarrow>
            submitted post = [] \<and>
            core post = SpinnerFail None # BalanceOf (balance_closing w) #
                        (case balance_closing w of Inl x \<Rightarrow> [] | Inr b \<Rightarrow> [StopUpdate]) \<and>
            snd (handler argv w) =
              (case balance_closing w of
                 Inl x \<Rightarrow> Inl x
               | Inr b \<Rightarrow> Inl (Error (''Claiming NII failed: '' @ message err)))) \<and>
         (s = Release \<longrightarrow>
            take 2 (core post) = [SpinnerFail (Some (message err)), BalanceOf (balance_depositing w)] \<and>
            list_all (\<lambda>out. hd out = None) (printed post) \<and>
            (\<forall>R A. balance_depositing w = Inr R \<and> deposit_allowance w = Inr A \<longrightarrow>
               submitted post \<noteq> [] \<and> Release \<notin> set (submitted post)))"
proof -
  have "is_core e"
    using failed by (rule rejected_is_core)
  with workflow_failure_policy run
  have "failure_policy w (snd (handler argv w)) (core pre) e (core post)"
    by (rule handler_split)
  moreover have "submitted post = submitted (core post)" "printed post = printed (core post)"
    by simp_all
  ultimately show ?thesis
    using failed
    by (auto simp add: failure_policy_def simp del: submitted_core printed_core
        split: sum.splits if_splits)
qed

text \<open>
  A rejected approval, and a rejected release after which the run goes on to its report.
\<close>

lemma failure_policy_examples:
  "fst (handler example_argv (example_env\<lparr>approve_tx := Inl (Error ''underpriced'')\<rparr>)) ! 23 =
     Submit Approve (StrArg (ethers_formatUnits 5000000000000000 15)) \<lparr>gasLimit = Some 800000, gasPrice = 12000000000\<rparr>
       (Inl (Error ''underpriced'')) \<and>
   submitted (drop 24 (fst (handler example_argv (example_env\<lparr>approve_tx := Inl (Error ''underpriced'')\<rparr>)))) = [] \<and>
   snd (handler example_argv (example_env\<lparr>approve_tx := Inl (Error ''underpriced'')\<rparr>)) =
     Inl (Error ''Claiming NII failed: underpriced'') \<and>
   fst (handler example_argv (example_env\<lparr>release_tx := Inl (Error ''locked'')\<rparr>)) ! 6 =
     Submit Release (NumArg (Some 0)) \<lparr>gasLimit = Some 800000, gasPrice = 12000000000\<rparr>
       (Inl (Error ''locked'')) \<and>
   submitted (drop 7 (fst (handler example_argv (example_env\<lparr>release_tx := Inl (Error ''locked'')\<rparr>)))) =
     [Clear, Approve, Complete] \<and>
   printed (fst (handler example_argv (example_env\<lparr>release_tx := Inl (Error ''locked'')\<rparr>))) =
     [[None,
       Some \<lparr>r_transactionHash = ''0xa3'', r_blockNumber = 103, r_gasUsed = ''45000'',
             r_href = ''https://ropsten.etherscan.io/tx/0xa3''\<rparr>,
       Some \<lparr>r_transactionHash = ''0xa4'', r_blockNumber = 104, r_gasUsed = ''90000'',
             r_href = ''https://ropsten.etherscan.io/tx/0xa4''\<rparr>]]"
  by (simp add: example_defs reduceReceipt_def toString_def toString_nat.simps)

text \<open>
  Claim C2 fails on the code. The finally block of nii.js awaits a balance read (line
  126), and an error thrown in a finally block replaces the error on its way out. In the
  run below the approval is rejected and nothing is submitted after it, but the closing
  balance read is rejected too, and what reaches the caller is the error of that read:
  the error of the failed step does not propagate.
\<close>

theorem step_error_is_replaced:
  "fst (handler example_argv
      (example_env\<lparr>approve_tx := Inl (Error ''underpriced''), balance_closing := Inl (Error ''timeout'')\<rparr>)) ! 23 =
     Submit Approve (StrArg (ethers_formatUnits 5000000000000000 15)) \<lparr>gasLimit = Some 800000, gasPrice = 12000000000\<rparr>
       (Inl (Error ''underpriced'')) \<and>
   submitted (drop 24 (fst (handler example_argv
      (example_env\<lparr>approve_tx := Inl (Error ''underpriced''), balance_closing := Inl (Error ''timeout'')\<rparr>)))) = [] \<and>
   snd (handler example_argv
      (example_env\<lparr>approve_tx := Inl (Error ''underpriced''), balance_closing := Inl (Error ''timeout'')\<rparr>)) =
     Inl (Error ''timeout'')"
  by (simp add: example_defs)

text \<open>
  The clean-up runs once when the provider, the key and the contract were obtained and
  the closing balance could be read, and not at all otherwise.
\<close>

lemma stop_update_count:
  "stopped (fst (handler argv w)) =
     (if \<not> isl (nii_settings argv) \<and> cleanup_reached w then 1 else 0)"
proof -
  have "stopped (core (fst (handler argv w))) =
          (if \<not> isl (nii_settings argv) \<and> cleanup_reached w then 1 else 0)"
    using workflow_stopped [of _ _ _ w]
    by (cases "nii_settings argv") (auto simp add: handler_def throw_def holds_def core_run_def)
  then show ?thesis by simp
qed

text \<open>
  Claim C3 fails on the code. The finally block of nii.js reads the balance before it
  calls \<^verbatim>\<open>provider.stopUpdate()\<close>, and the provider is obtained before the try: in a
  run whose closing balance read is rejected, and in a run whose private key cannot be
  obtained, the provider has been acquired and its polling is never stopped.
\<close>

theorem cleanup_is_skipped:
  "ProviderFrom (Inr ()) \<in> set (fst (handler example_argv (example_env\<lparr>balance_closing := Inl (Error ''timeout'')\<rparr>))) \<and>
   stopped (fst (handler example_argv (example_env\<lparr>balance_closing := Inl (Error ''timeout'')\<rparr>))) = 0 \<and>
   snd (handler example_argv (example_env\<lparr>balance_closing := Inl (Error ''timeout'')\<rparr>)) = Inl (Error ''timeout'') \<and>
   handler example_argv (example_env\<lparr>private_key := Inl (Error ''wrong passphrase'')\<rparr>) =
     ([ProviderFrom (Inr ()), PrivateKey (Inl (Error ''wrong passphrase''))], Inl (Error ''wrong passphrase''))"
  by (simp add: example_defs)

text \<open>
  Claim C5, as the code has it. A report that the handler prints is the only one of its
  run and has exactly three slots, for the release, the approval and the deposit, whatever
  steps were submitted: the first slot is null exactly when the release failed, the
  second is null exactly when the approval was skipped, the third is the receipt of the
  deposit; each other slot is the reduced receipt of its step. The clearing of the
  allowance has no slot.
\<close>

theorem report_has_three_slots:
  assumes "out \<in> set (printed (fst (handler argv w)))"
  shows "printed (fst (handler argv w)) = [out] \<and> length out = 3 \<and>
         (out ! 0 = None \<longleftrightarrow> isl (release_tx w) \<or> isl (release_confirmation w)) \<and>
         (out ! 1 = None \<longleftrightarrow> Approve \<notin> set (submitted (fst (handler argv w)))) \<and>
         out ! 2 \<noteq> None \<and>
         out =
           [(case release_tx w of Inl x \<Rightarrow> None | Inr h \<Rightarrow>
               (case release_confirmation w of Inl x \<Rightarrow> None | Inr r \<Rightarrow> reduceReceipt (Some r))),
            (if Approve \<in> set (submitted (fst (handler argv w)))
             then (case approve_confirmation w of Inl x \<Rightarrow> None | Inr r \<Rightarrow> reduceReceipt (Some r))
             else None),
            (case complete_confirmation w of Inl x \<Rightarrow> None | Inr r \<Rightarrow> reduceReceipt (Some r))]"
proof -
  let ?t = "fst (handler argv w)"
  have "report_rule w (core ?t)"
  proof (rule handler_holds)
    show "holds (core_run (workflow p opts tmo w)) (\<lambda>t r. report_rule w t)" for p opts tmo
      by (rule workflow_report_rule)
    show "report_rule w []" for x :: error
      by (simp add: report_rule_def)
  qed
  with assms show ?thesis
    by (auto simp add: report_rule_def reduceReceipt_def split: sum.splits)
qed

theorem report_has_three_slots_witness:
  "printed (fst (handler example_argv example_env)) =
     [[Some \<lparr>r_transactionHash = ''0xa1'', r_blockNumber = 101, r_gasUsed = ''50000'',
             r_href = ''https://ropsten.etherscan.io/tx/0xa1''\<rparr>,
       Some \<lparr>r_transactionHash = ''0xa3'', r_blockNumber = 103, r_gasUsed = ''45000'',
             r_href = ''https://ropsten.etherscan.io/tx/0xa3''\<rparr>,
       Some \<lparr>r_transactionHash = ''0xa4'', r_blockNumber = 104, r_gasUsed = ''90000'',
             r_href = ''https://ropsten.etherscan.io/tx/0xa4''\<rparr>]] \<and>
   submitted (fst (handler example_argv example_env)) = [Release, Clear, Approve, Complete]"
proof -
  let ?t = "fst (handler example_argv example_env)"
  let ?out = "[Some \<lparr>r_transactionHash = ''0xa1'', r_blockNumber = 101, r_gasUsed = ''50000'',
             r_href = ''https://ropsten.etherscan.io/tx/0xa1''\<rparr>,
       Some \<lparr>r_transactionHash = ''0xa3'', r_blockNumber = 103, r_gasUsed = ''45000'',
             r_href = ''https://ropsten.etherscan.io/tx/0xa3''\<rparr>,
       Some \<lparr>r_transactionHash = ''0xa4'', r_blockNumber = 104, r_gasUsed = ''90000'',
             r_href = ''https://ropsten.etherscan.io/tx/0xa4''\<rparr>]"
  have steps: "submitted ?t = [Release, Clear, Approve, Complete]"
    by (simp add: example_defs)
  have "?out \<in> set (printed ?t)"
    by (simp add: example_defs reduceReceipt_def toString_def toString_nat.simps)
  from report_has_three_slots [OF this] steps show ?thesis
    by simp
qed

text \<open>
  The claim as it was stated fails: when the release fails, the approval is skipped and
  the deposit succeeds, two steps were submitted and the report has three slots, two of
  them null.
\<close>

theorem report_counterexample:
  "submitted (fst (handler example_argv
      (example_env\<lparr>release_tx := Inl (Error ''locked''), deposit_allowance := Inr 5000000000000000\<rparr>))) =
     [Release, Complete] \<and>
   printed (fst (handler example_argv
      (example_env\<lparr>release_tx := Inl (Error ''locked''), deposit_allowance := Inr 5000000000000000\<rparr>))) =
     [[None, None,
       Some \<lparr>r_transactionHash = ''0xa4'', r_blockNumber = 104, r_gasUsed = ''90000'',
             r_href = ''https://ropsten.etherscan.io/tx/0xa4''\<rparr>]]"
  by (simp add: example_defs reduceReceipt_def toString_def toString_nat.simps)

text \<open>
  Claim C6. A run of the handler prints no report and throws, or it prints one report of
  three slots; a run in which a step other than the release has failed prints none; and
  where the report is printed, nothing is submitted afterwards, the deposit has been
  confirmed, and every step submitted before, the release apart, has been confirmed.
\<close>

theorem report_is_all_or_nothing:
  "((printed (fst (handler argv w)) = [] \<and> isl (snd (handler argv w))) \<or>
    (\<exists>out. printed (fst (handler argv w)) = [out] \<and> length out = 3)) \<and>
   (\<forall>e s err. e \<in> set (fst (handler argv w)) \<and> rejected e = Some (s, err) \<and> s \<noteq> Release \<longrightarrow>
      printed (fst (handler argv w)) = []) \<and>
   (\<forall>pre out post. fst (handler argv w) = pre @ ConsoleLog out # post \<longrightarrow>
      submitted post = [] \<and> Complete \<in> set (confirmed pre) \<and>
      (\<forall>s \<in> set (submitted pre). s = Release \<or> s \<in> set (confirmed pre)))"
proof -
  let ?t = "fst (handler argv w)" and ?r = "snd (handler argv w)"
  have rule: "report_rule w (core ?t)"
  proof (rule handler_holds)
    show "holds (core_run (workflow p opts tmo w)) (\<lambda>t r. report_rule w t)" for p opts tmo
      by (rule workflow_report_rule)
    show "report_rule w []" for x :: error
      by (simp add: report_rule_def)
  qed
  have last: "(printed (core ?t) = [] \<longrightarrow> isl ?r) \<and>
              (printed (core ?t) = [] \<or> list_all no_required_failure (core ?t))"
  proof (rule handler_holds)
    show "holds (core_run (workflow p opts tmo w))
            (\<lambda>t r. (printed t = [] \<longrightarrow> isl r) \<and> (printed t = [] \<or> list_all no_required_failure t))"
      for p opts tmo
      using workflow_report_last [of p opts tmo w] by (simp add: holds_def)
    show "(printed [] = [] \<longrightarrow> isl (Inl x :: error + unit)) \<and>
          (printed [] = [] \<or> list_all no_required_failure [])" for x
      by simp
  qed
  have first: "(printed ?t = [] \<and> isl ?r) \<or> (\<exists>out. printed ?t = [out] \<and> length out = 3)"
    using rule last by (auto simp add: report_rule_def)
  have second: "printed ?t = []"
    if "e \<in> set ?t" and "rejected e = Some (s, err)" and "s \<noteq> Release" for e s err
  proof (rule ccontr)
    assume "printed ?t \<noteq> []"
    with last have "list_all no_required_failure (core ?t)"
      by simp
    moreover have "e \<in> set (core ?t)"
      using that(1,2) by (simp add: in_core rejected_is_core)
    ultimately have "no_required_failure e"
      by (simp add: list_all_iff)
    with that(2,3) show False
      by (simp add: no_required_failure_def)
  qed
  have third: "submitted post = [] \<and> Complete \<in> set (confirmed pre) \<and>
               (\<forall>s \<in> set (submitted pre). s = Release \<or> s \<in> set (confirmed pre))"
    if run: "?t = pre @ ConsoleLog out # post" for pre out post
  proof -
    have "holds (core_run (workflow p opts tmo w)) (\<lambda>t r. each_split report_last [] t)"
      for p opts tmo
      using workflow_report_last [of p opts tmo w] by (simp add: holds_def)
    from this run have "report_last (core pre) (ConsoleLog out) (core post)"
      by (rule handler_split) simp
    then show ?thesis
      by (simp add: report_last_def list_all_iff)
  qed
  from first second third show ?thesis
    by blast
qed

theorem report_is_all_or_nothing_witness:
  "printed (fst (handler example_argv (example_env\<lparr>complete_confirmation := Inl (Error ''timeout'')\<rparr>))) = [] \<and>
   isl (snd (handler example_argv (example_env\<lparr>complete_confirmation := Inl (Error ''timeout'')\<rparr>))) \<and>
   confirmed (take 35 (fst (handler example_argv example_env))) = [Release, Clear, Approve, Complete]"
proof -
  let ?w = "example_env\<lparr>complete_confirmation := Inl (Error ''timeout'')\<rparr>"
  let ?t = "fst (handler example_argv ?w)"
  let ?u = "fst (handler example_argv example_env)"
  have "32 < length ?t"
    by (simp add: example_defs)
  then have "?t ! 32 \<in> set ?t"
    by simp
  moreover have "rejected (?t ! 32) = Some (Complete, Error ''timeout'')"
    by (simp add: example_defs rejected_def)
  ultimately have none: "printed ?t = []"
    using report_is_all_or_nothing [of example_argv ?w] by blast
  then have "isl (snd (handler example_argv ?w))"
    using report_is_all_or_nothing [of example_argv ?w] by simp
  moreover have "confirmed (take 35 ?u) = [Release, Clear, Approve, Complete]"
    by (simp add: example_defs)
  ultimately show ?thesis
    using none by simp
qed

text \<open>
  What the first balance read returns changes no transaction, no report and not the
  outcome of the workflow.
\<close>

lemma opening_balance_unused:
  "filter is_transaction (fst (workflow p opts tmo (w\<lparr>balance_opening := Inr b\<rparr>))) =
     filter is_transaction (fst (workflow p opts tmo (w\<lparr>balance_opening := Inr b'\<rparr>))) \<and>
   printed (fst (workflow p opts tmo (w\<lparr>balance_opening := Inr b\<rparr>))) =
     printed (fst (workflow p opts tmo (w\<lparr>balance_opening := Inr b'\<rparr>))) \<and>
   snd (workflow p opts tmo (w\<lparr>balance_opening := Inr b\<rparr>)) =
     snd (workflow p opts tmo (w\<lparr>balance_opening := Inr b'\<rparr>))"
proof -
  have rest: "release_and_deposit p opts tmo (w\<lparr>balance_opening := x\<rparr>) =
              release_and_deposit p opts tmo w" for x
    by (simp add: release_and_deposit_def release_step_def approve_steps_def complete_step_def
        cong: if_cong)
  show ?thesis
    by (cases "release_and_deposit p opts tmo w")
       (simp add: workflow_def claim_and_deposit_def rest run_defs split: sum.splits)
qed

text \<open>
  Claim C10. Wherever a run of the handler submits the approval or the deposit, the
  amount is the balance of the wallet as read after the release was submitted and its
  confirmation awaited (the release having succeeded or not), formatted with 15
  decimals; so both amounts are the same, and in a run that ends without an error the
  deposit is submitted with this very amount. The arguments of the command do not enter
  into it, and the balance read before the release changes no transaction.
\<close>

theorem deposit_amount_is_the_balance_read_after_release:
  assumes run: "fst (handler argv w) = pre @ Submit s a opts r # post"
      and s: "s = Approve \<or> s = Complete"
  shows "(\<exists>R. balance_depositing w = Inr R \<and> reading None pre = Some R \<and>
              a = StrArg (formatUnits w R 15)) \<and>
         Release \<in> set (submitted pre) \<and>
         (\<not> isl (snd (handler argv w)) \<longrightarrow>
            (\<exists>opts'. Submit Complete a opts' (complete_tx w) \<in> set (fst (handler argv w)))) \<and>
         (\<forall>b b'. filter is_transaction (fst (handler argv (w\<lparr>balance_opening := Inr b\<rparr>))) =
                 filter is_transaction (fst (handler argv (w\<lparr>balance_opening := Inr b'\<rparr>))))"
proof -
  let ?t = "fst (handler argv w)"
  from workflow_amount_rule run
  have "amount_rule w (core pre) (Submit s a opts r) (core post)"
    by (rule handler_split) simp
  with s have release: "Release \<in> set (submitted pre)"
      and balance: "Inr (reading None pre) = map_sum id Some (balance_depositing w)"
      and amount: "Some a = map_option (\<lambda>R. StrArg (formatUnits w R 15)) (reading None pre)"
    by (simp_all add: amount_rule_def)
  from balance amount obtain R where R: "balance_depositing w = Inr R" "reading None pre = Some R"
      "a = StrArg (formatUnits w R 15)"
    by (cases "balance_depositing w") auto
  have "\<not> isl (snd (handler argv w)) \<longrightarrow> (\<exists>opts'. deposit_submitted w opts' (core ?t))"
  proof (rule handler_holds)
    show "holds (core_run (workflow p opts tmo w))
            (\<lambda>t r. \<not> isl r \<longrightarrow> (\<exists>opts'. deposit_submitted w opts' t))" for p opts tmo
      using workflow_deposit_submitted [of p opts tmo w] by (auto simp add: holds_def)
    show "\<not> isl (Inl x :: error + unit) \<longrightarrow> (\<exists>opts'. deposit_submitted w opts' [])" for x
      by simp
  qed
  then have deposit: "\<exists>opts'. Submit Complete a opts' (complete_tx w) \<in> set ?t"
    if "\<not> isl (snd (handler argv w))"
    using that R by (auto simp add: deposit_submitted_def in_core)
  have "filter is_transaction (fst (handler argv (w\<lparr>balance_opening := Inr b\<rparr>))) =
        filter is_transaction (fst (handler argv (w\<lparr>balance_opening := Inr b'\<rparr>)))"
    for b b'
    using opening_balance_unused [where w = w and b = b and b' = b']
    by (simp add: handler_def throw_def split: sum.splits prod.splits)
  with R release deposit show ?thesis
    by blast
qed

theorem deposit_amount_witness:
  "fst (handler example_argv example_env) ! 23 =
     Submit Approve (StrArg (ethers_formatUnits 5000000000000000 15))
       \<lparr>gasLimit = Some 800000, gasPrice = 12000000000\<rparr> (Inr ''0xa3'') \<and>
   fst (handler example_argv example_env) ! 29 =
     Submit Complete (StrArg (ethers_formatUnits 5000000000000000 15))
       \<lparr>gasLimit = Some 800000, gasPrice = 12000000000\<rparr> (Inr ''0xa4'') \<and>
   reading None (take 23 (fst (handler example_argv example_env))) = Some 5000000000000000 \<and>
   reading None (take 29 (fst (handler example_argv example_env))) = Some 5000000000000000 \<and>
   snd (handler example_argv example_env) = Inr ()"
proof -
  let ?t = "fst (handler example_argv example_env)"
  let ?opts = "\<lparr>gasLimit = Some 800000, gasPrice = 12000000000\<rparr>"
  let ?a = "StrArg (ethers_formatUnits 5000000000000000 15)"
  have e: "?t ! 23 = Submit Approve ?a ?opts (Inr ''0xa3'')"
      "?t ! 29 = Submit Complete ?a ?opts (Inr ''0xa4'')"
    by (simp_all add: example_defs)
  have "29 < length ?t"
    by (simp add: example_defs)
  then have "?t = take 23 ?t @ ?t ! 23 # drop 24 ?t" "?t = take 29 ?t @ ?t ! 29 # drop 30 ?t"
    using id_take_nth_drop [of 23 ?t] id_take_nth_drop [of 29 ?t] by simp_all
  with e have run: "?t = take 23 ?t @ Submit Approve ?a ?opts (Inr ''0xa3'') # drop 24 ?t"
      "?t = take 29 ?t @ Submit Complete ?a ?opts (Inr ''0xa4'') # drop 30 ?t"
    by simp_all
  have "balance_depositing example_env = Inr 5000000000000000"
    by (simp add: example_env_def)
  moreover have "snd (handler example_argv example_env) = Inr ()"
    by (simp add: example_defs)
  ultimately show ?thesis
    using deposit_amount_is_the_balance_read_after_release [OF run(1)]
      deposit_amount_is_the_balance_read_after_release [OF run(2)] e
    by simp
qed

section \<open>The claims about the settings, the ranges and the amounts\<close>

lemma validate_cases:
  "(g < 1 \<longrightarrow> validateGasLimit (Num g) = Inl (Error ''Gas limit must be a number higher than 0.'')) \<and>
   (1 \<le> g \<longrightarrow> validateGasLimit (Num g) = Inr (Some \<lfloor>g\<rfloor>)) \<and>
   (g < 1 \<longrightarrow> validateGasPrice (Num g) = Inl (Error ''Gas price must be a number higher than 0.'')) \<and>
   (1 \<le> g \<longrightarrow> validateGasPrice (Num g) = Inr (Some \<lfloor>g\<rfloor>)) \<and>
   (g < 1 \<longrightarrow> validateTimeout (Num g) = Inl (Error ''Timeout must be a number higher than 0.'')) \<and>
   (1 \<le> g \<longrightarrow> validateTimeout (Num g) = Inr (Some \<lfloor>g\<rfloor>))"
proof -
  have "\<lceil>g\<rceil> \<le> 0" if "g < 0"
    using that by (simp add: ceiling_le_iff)
  moreover have "\<lfloor>g\<rfloor> \<le> 0 \<longleftrightarrow> g < 1"
    by (simp add: floor_le_iff)
  ultimately show ?thesis
    by (auto simp add: validateGasLimit_def validateGasPrice_def validateTimeout_def
        parseInt_number_def js_le_def)
qed

lemma validate_with_default:
  "validateGasLimit (or_default (Num g) 800000) =
     (if g = 0 then Inr (Some 800000)
      else if g < 1 then Inl (Error ''Gas limit must be a number higher than 0.'')
      else Inr (Some \<lfloor>g\<rfloor>))"
  "validateGasPrice (or_default (Num q) 12) =
     (if q = 0 then Inr (Some 12)
      else if q < 1 then Inl (Error ''Gas price must be a number higher than 0.'')
      else Inr (Some \<lfloor>q\<rfloor>))"
  "validateTimeout (Num t) =
     (if t < 1 then Inl (Error ''Timeout must be a number higher than 0.'')
      else Inr (Some \<lfloor>t\<rfloor>))"
  using validate_cases [of g] validate_cases [of q] validate_cases [of t]
    validate_cases [of 800000] validate_cases [of 12]
  by (simp_all add: or_default_def)

lemma nii_settings_cases:
  "nii_settings \<lparr>period = n, gas = Num g, price = Num q, timeout = Num t\<rparr> =
     (case validatePeriod n of
        Inl e \<Rightarrow> Inl e
      | Inr p \<Rightarrow>
          if g \<noteq> 0 \<and> g < 1 then Inl (Error ''Gas limit must be a number higher than 0.'')
          else if t < 1 then Inl (Error ''Timeout must be a number higher than 0.'')
          else if q \<noteq> 0 \<and> q < 1 then Inl (Error ''Gas price must be a number higher than 0.'')
          else Inr (p, \<lparr>gasLimit = Some (if g = 0 then 800000 else \<lfloor>g\<rfloor>),
                        gasPrice = (if q = 0 then 12 else \<lfloor>q\<rfloor>) * 10 ^ 9\<rparr>, Some \<lfloor>t\<rfloor>))"
  by (simp add: nii_settings_def validate_with_default parseUnits_gwei_def split: sum.splits)

text \<open>
  Claim C7, as the code has it. For a gas limit, a gas price and a timeout that are
  numbers in plain decimal notation, the gas price below \<open>2\<^sup>5\<^sup>3\<close>: each validator fails, with its message, exactly
  when the number is below 1, and otherwise returns the integer part of the number (a
  number that is not an integer is cut, not refused). The NII claim replaces a gas limit
  of 0 by 800000 and a gas price of 0 by 12 before it validates them. When the settings
  are refused the handler throws before it calls anything; otherwise the gas price of
  the options is the price in gwei times \<open>10\<^sup>9\<close>, and every transaction of the run is
  given these options and this timeout.
\<close>

theorem gas_policy_of_the_nii_claim:
  assumes "plain_decimal g" and "plain_decimal q" and "plain_decimal t"
      and "q < 2 ^ 53"
  shows "(g < 1 \<longrightarrow> validateGasLimit (Num g) = Inl (Error ''Gas limit must be a number higher than 0.'')) \<and>
         (1 \<le> g \<longrightarrow> validateGasLimit (Num g) = Inr (Some \<lfloor>g\<rfloor>)) \<and>
         (q < 1 \<longrightarrow> validateGasPrice (Num q) = Inl (Error ''Gas price must be a number higher than 0.'')) \<and>
         (1 \<le> q \<longrightarrow> validateGasPrice (Num q) = Inr (Some \<lfloor>q\<rfloor>)) \<and>
         (t < 1 \<longrightarrow> validateTimeout (Num t) = Inl (Error ''Timeout must be a number higher than 0.'')) \<and>
         (1 \<le> t \<longrightarrow> validateTimeout (Num t) = Inr (Some \<lfloor>t\<rfloor>)) \<and>
         (\<forall>e. nii_settings \<lparr>period = n, gas = Num g, price = Num q, timeout = Num t\<rparr> = Inl e \<longrightarrow>
            handler \<lparr>period = n, gas = Num g, price = Num q, timeout = Num t\<rparr> w = ([], Inl e)) \<and>
         (\<forall>p opts tmo.
            nii_settings \<lparr>period = n, gas = Num g, price = Num q, timeout = Num t\<rparr> = Inr (p, opts, tmo) \<longrightarrow>
              gasLimit opts = Some (if g = 0 then 800000 else \<lfloor>g\<rfloor>) \<and> (g = 0 \<or> 1 \<le> g) \<and>
              gasPrice opts = (if q = 0 then 12 else \<lfloor>q\<rfloor>) * 10 ^ 9 \<and> (q = 0 \<or> 1 \<le> q) \<and>
              tmo = Some \<lfloor>t\<rfloor> \<and> 1 \<le> t \<and>
              list_all (uses_settings opts tmo)
                (fst (handler \<lparr>period = n, gas = Num g, price = Num q, timeout = Num t\<rparr> w)))"
proof -
  let ?argv = "\<lparr>period = n, gas = Num g, price = Num q, timeout = Num t\<rparr>"
  have refused: "handler ?argv w = ([], Inl e)" if "nii_settings ?argv = Inl e" for e
    using that by (simp add: handler_def throw_def)
  have accepted:
    "gasLimit opts = Some (if g = 0 then 800000 else \<lfloor>g\<rfloor>) \<and> (g = 0 \<or> 1 \<le> g) \<and>
     gasPrice opts = (if q = 0 then 12 else \<lfloor>q\<rfloor>) * 10 ^ 9 \<and> (q = 0 \<or> 1 \<le> q) \<and>
     tmo = Some \<lfloor>t\<rfloor> \<and> 1 \<le> t \<and> list_all (uses_settings opts tmo) (fst (handler ?argv w))"
    if ok: "nii_settings ?argv = Inr (p, opts, tmo)" for p opts tmo
  proof -
    have "list_all (uses_settings opts tmo) (core (fst (workflow p opts tmo w)))"
      using workflow_uses_settings [of p opts tmo w] by (simp add: holds_def core_run_def)
    then have "list_all (uses_settings opts tmo) (fst (workflow p opts tmo w))"
      by (subst (asm) list_all_core) (auto simp add: uses_settings_def elim: is_core.elims)
    then have "list_all (uses_settings opts tmo) (fst (handler ?argv w))"
      using ok by (simp add: handler_def)
    moreover have "gasLimit opts = Some (if g = 0 then 800000 else \<lfloor>g\<rfloor>) \<and> (g = 0 \<or> 1 \<le> g) \<and>
      gasPrice opts = (if q = 0 then 12 else \<lfloor>q\<rfloor>) * 10 ^ 9 \<and> (q = 0 \<or> 1 \<le> q) \<and>
      tmo = Some \<lfloor>t\<rfloor> \<and> 1 \<le> t"
      using ok unfolding nii_settings_cases
      by (cases "validatePeriod n") (auto split: if_splits)
    ultimately show ?thesis by simp
  qed
  show ?thesis
    using validate_cases [of g] validate_cases [of q] validate_cases [of t] refused accepted
    by (intro conjI allI impI) simp_all
qed

theorem gas_policy_witness:
  "plain_decimal 800000 \<and> plain_decimal 12 \<and> plain_decimal 60 \<and> (12 :: rat) < 2 ^ 53 \<and>
   validateGasLimit (Num 800000) = Inr (Some 800000) \<and>
   validateGasPrice (Num 12) = Inr (Some 12) \<and>
   validateTimeout (Num 60) = Inr (Some 60) \<and>
   nii_settings example_argv = Inr (Some 1, \<lparr>gasLimit = Some 800000, gasPrice = 12000000000\<rparr>, Some 60) \<and>
   list_all (uses_settings \<lparr>gasLimit = Some 800000, gasPrice = 12000000000\<rparr> (Some 60))
     (fst (handler example_argv example_env))"
proof -
  have plain: "plain_decimal 800000" "plain_decimal 12" "plain_decimal 60"
    by (simp_all add: plain_decimal_def)
  have settings: "nii_settings \<lparr>period = Num 1, gas = Num 800000, price = Num 12, timeout = Num 60\<rparr> =
      Inr (Some 1, \<lparr>gasLimit = Some 800000, gasPrice = 12000000000\<rparr>, Some 60)"
    by (simp add: settings_defs)
  have small: "(12 :: rat) < 2 ^ 53"
    by simp
  from gas_policy_of_the_nii_claim [OF plain small, of "Num 1" example_env] settings plain small
  show ?thesis
    by (simp add: example_argv_def)
qed

text \<open>
  The claim as it was stated fails: a gas limit of 2.5 is accepted as 2, and the NII
  claim accepts a gas limit and a gas price of 0, for which it takes 800000 and 12 gwei.
\<close>

theorem gas_policy_counterexample:
  "validateGasLimit (Num (5 / 2)) = Inr (Some 2) \<and>
   nii_settings \<lparr>period = Num 1, gas = Num 0, price = Num 0, timeout = Num 60\<rparr> =
     Inr (Some 1, \<lparr>gasLimit = Some 800000, gasPrice = 12000000000\<rparr>, Some 60)"
proof -
  have "\<lfloor>5 / 2 :: rat\<rfloor> = 2"
    by (rule floor_unique) simp_all
  then show ?thesis
    using validate_cases [of "5 / 2"]
    by (simp add: nii_settings_cases validatePeriod_def parseInt_number_def js_lt_def js_gt_def)
qed

lemmas range_defs =
  fees_range_def truthy_def first_and_last_def or_first_def validateAccrual_def
  validateBlock_def

text \<open>A text without a minus sign does not parse as a negative number.\<close>

lemma strip_sign_positive: "CHR ''-'' \<notin> set xs \<Longrightarrow> fst (strip_sign xs) = 1"
  by (cases xs) (auto simp add: strip_sign_def)

lemma parseInt_not_negative:
  assumes "CHR ''-'' \<notin> set s" and "parseInt s = Some i"
  shows "0 \<le> i"
proof -
  have "CHR ''-'' \<notin> set (dropWhile is_space s)"
    using assms(1) set_dropWhileD by fastforce
  then have "fst (strip_sign (dropWhile is_space s)) = 1"
    by (rule strip_sign_positive)
  with assms(2) show ?thesis
    by (auto simp add: parseInt_def Let_def split: prod.splits if_splits)
qed

text \<open>
  The digits of a text of at most 15 characters make a number below \<open>2\<^sup>5\<^sup>3\<close>, in radix
  10 and, after the prefix \<^verbatim>\<open>0x\<close>, in radix 16: a double holds it exactly.
\<close>

lemma digits_bound:
  assumes "\<forall>c \<in> set ds. is_digit r c"
  shows "foldl (\<lambda>acc c. acc * r + the (digit_value c)) n ds < (n + 1) * r ^ length ds"
  using assms
proof (induction ds arbitrary: n)
  case Nil
  show ?case by simp
next
  case (Cons c ds)
  let ?f = "\<lambda>acc c. acc * r + the (digit_value c)"
  from Cons.prems have "the (digit_value c) < r"
    by (auto simp add: is_digit_def split: option.splits)
  then have "?f n c + 1 \<le> (n + 1) * r"
    by simp
  then have step: "(?f n c + 1) * r ^ length ds \<le> (n + 1) * r * r ^ length ds"
    by (rule mult_le_mono1)
  from Cons.prems have "\<forall>c \<in> set ds. is_digit r c"
    by simp
  then have "foldl ?f (?f n c) ds < (?f n c + 1) * r ^ length ds"
    by (rule Cons.IH)
  then have "foldl ?f (?f n c) ds < (n + 1) * r * r ^ length ds"
    using step by (rule less_le_trans)
  moreover have "foldl ?f n (c # ds) = foldl ?f (?f n c) ds"
    by simp
  moreover have "(n + 1) * r ^ length (c # ds) = (n + 1) * r * r ^ length ds"
    by (simp add: algebra_simps)
  ultimately show ?case
    by (simp only:)
qed

lemma digits_value_bound: "digits_value r (takeWhile (is_digit r) s) < r ^ length (takeWhile (is_digit r) s)"
  using digits_bound [of "takeWhile (is_digit r) s" r 0]
  by (auto simp add: digits_value_def dest: set_takeWhileD)

lemma strip_sign_length: "strip_sign s = (sign, s') \<Longrightarrow> length s' \<le> length s \<and> \<bar>sign\<bar> = 1"
  by (auto simp add: strip_sign_def split: list.splits if_splits)

lemma strip_prefix_length:
  "strip_prefix s = (r, s') \<Longrightarrow> (r = 10 \<and> s' = s) \<or> (r = 16 \<and> length s' + 2 = length s)"
  by (auto simp add: strip_prefix_def split: list.splits if_splits)

lemma parseInt_exact:
  assumes short: "length s \<le> 15" and parsed: "parseInt s = Some i"
  shows "\<bar>i\<bar> < 2 ^ 53"
proof -
  obtain sign s1 where sign: "strip_sign (dropWhile is_space s) = (sign, s1)"
    by (cases "strip_sign (dropWhile is_space s)")
  obtain r s2 where prefix: "strip_prefix s1 = (r, s2)"
    by (cases "strip_prefix s1")
  let ?ds = "takeWhile (is_digit r) s2"
  have "length (dropWhile is_space s) \<le> length s"
    by (rule length_dropWhile_le)
  with strip_sign_length [OF sign] short have s1: "length s1 \<le> 15" and unit: "\<bar>sign\<bar> = 1"
    by simp_all
  have ds: "length ?ds \<le> length s2"
    by (rule length_takeWhile_le)
  from parsed sign prefix have i: "i = sign * int (digits_value r ?ds)"
    by (simp add: parseInt_def Let_def split: if_splits)
  have "digits_value r ?ds < 2 ^ 53"
  proof -
    from strip_prefix_length [OF prefix] s1 ds
    consider "r = 10" "length ?ds \<le> 15" | "r = 16" "length ?ds \<le> 13"
      by auto
    then show ?thesis
    proof cases
      case 1
      have "digits_value r ?ds < r ^ length ?ds"
        by (rule digits_value_bound)
      also have "r ^ length ?ds \<le> 10 ^ 15"
        using 1(2) unfolding 1(1) by (rule power_increasing) simp
      also have "\<dots> < (2 :: nat) ^ 53"
        by simp
      finally show ?thesis .
    next
      case 2
      have "digits_value r ?ds < r ^ length ?ds"
        by (rule digits_value_bound)
      also have "r ^ length ?ds \<le> 16 ^ 13"
        using 2(2) unfolding 2(1) by (rule power_increasing) simp
      also have "\<dots> < (2 :: nat) ^ 53"
        by simp
      finally show ?thesis .
    qed
  qed
  then have "int (digits_value r ?ds) < 2 ^ 53"
    by (metis of_nat_less_iff of_nat_numeral of_nat_power)
  with i unit show ?thesis
    by (simp add: abs_mult)
qed

lemma split_pieces: "p \<in> set (split c s) \<Longrightarrow> c \<notin> set p"
  by (induction s arbitrary: p) (auto split: if_splits list.splits)

lemma split_not_empty: "split c s \<noteq> []"
  by (induction s) (auto split: list.splits)

lemma split_length: "p \<in> set (split c s) \<Longrightarrow> length p \<le> length s"
proof (induction s arbitrary: p)
  case Nil
  then show ?case by simp
next
  case (Cons x xs)
  show ?case
  proof (cases "x = c")
    case True
    with Cons.prems have "p = [] \<or> p \<in> set (split c xs)"
      by auto
    with Cons.IH [of p] show ?thesis
      by auto
  next
    case False
    obtain q qs where q: "split c xs = q # qs"
      using split_not_empty [of c xs] by (cases "split c xs") auto
    with Cons.prems False have "p = x # q \<or> p \<in> set qs"
      by simp
    moreover have "length q \<le> length xs"
      using Cons.IH [of q] q by simp
    moreover have "length p \<le> length xs" if "p \<in> set qs"
      using Cons.IH [of p] q that by simp
    ultimately show ?thesis
      by auto
  qed
qed

lemma split_without: "c \<notin> set s \<Longrightarrow> split c s = [s]"
  by (induction s) auto

lemma first_and_last_pieces:
  assumes "first_and_last s = (a, b)"
  shows "CHR ''-'' \<notin> set a \<and> CHR ''-'' \<notin> set (or_first b a) \<and>
         length a \<le> length s \<and> length (or_first b a) \<le> length s"
proof -
  have "\<forall>p \<in> set (split (CHR ''-'') s). CHR ''-'' \<notin> set p \<and> length p \<le> length s"
    using split_pieces split_length by blast
  with assms show ?thesis
    by (auto simp add: first_and_last_def or_first_def split: list.splits option.splits)
qed

lemma validate_bound:
  "CHR ''-'' \<notin> set a \<Longrightarrow>
     validateAccrual a name =
       (case parseInt a of
          None \<Rightarrow> Inl (Error (name @ '' accrual index must be a number higher than 0.''))
        | Some i \<Rightarrow> Inr i) \<and>
     validateBlock a name =
       (case parseInt a of
          None \<Rightarrow> Inl (Error (name @ '' block number must be a number higher than 0.''))
        | Some i \<Rightarrow> Inr i)"
  using parseInt_not_negative [of a]
  by (auto simp add: validateAccrual_def validateBlock_def split: option.splits)

text \<open>
  Claim C8, as the code has it. For a text of at most 15 characters given as
  \<^verbatim>\<open>--blocks\<close> or \<^verbatim>\<open>--accruals\<close>, \<open>a\<close> being its piece before the first dash and
  \<open>b\<close> the piece after it: the range is refused with the error \<open>First ... must be a
  number higher than 0.\<close> exactly when \<^verbatim>\<open>parseInt\<close> reads no integer at the start of
  \<open>a\<close>; otherwise with \<open>Last ... must be a number higher than 0.\<close> exactly when it
  reads none at the start of \<open>b\<close> (of \<open>a\<close> again when \<open>b\<close> is missing or empty); and
  otherwise it is the range of the two integers read. These are not negative and below
  \<open>2\<^sup>5\<^sup>3\<close>, so the numbers of JavaScript are these integers. The code does not compare
  the two bounds. A text without a dash is its own first piece and has no second, so
  that \<open>first = last\<close>.
\<close>

theorem range_of_a_fee_claim:
  assumes given: "truthy (if truthy blocks then blocks else accruals)"
      and pieces: "first_and_last (the (if truthy blocks then blocks else accruals)) = (a, b)"
      and short: "length (the (if truthy blocks then blocks else accruals)) \<le> 15"
  shows "fees_range blocks accruals =
           (case parseInt a of
              None \<Rightarrow>
                Inl (Error (''First'' @ (if truthy blocks then '' block number'' else '' accrual index'') @
                            '' must be a number higher than 0.''))
            | Some f \<Rightarrow>
                (case parseInt (or_first b a) of
                   None \<Rightarrow>
                     Inl (Error (''Last'' @ (if truthy blocks then '' block number'' else '' accrual index'') @
                                 '' must be a number higher than 0.''))
                 | Some l \<Rightarrow>
                     Inr (Some \<lparr>rtype = (if truthy blocks then blockSymbol else accrualSymbol),
                                rfirst = f, rlast = l\<rparr>))) \<and>
         (\<forall>i. parseInt a = Some i \<or> parseInt (or_first b a) = Some i \<longrightarrow> 0 \<le> i \<and> i < 2 ^ 53) \<and>
         (b = None \<longrightarrow> or_first b a = a) \<and>
         (CHR ''-'' \<notin> set (the (if truthy blocks then blocks else accruals)) \<longrightarrow>
            a = the (if truthy blocks then blocks else accruals) \<and> b = None)"
proof -
  let ?s = "the (if truthy blocks then blocks else accruals)"
  from first_and_last_pieces [OF pieces]
  have dash: "CHR ''-'' \<notin> set a" "CHR ''-'' \<notin> set (or_first b a)"
    and len: "length a \<le> length ?s" "length (or_first b a) \<le> length ?s"
    by simp_all
  have bound: "0 \<le> i \<and> i < 2 ^ 53"
    if "parseInt a = Some i \<or> parseInt (or_first b a) = Some i" for i
  proof -
    from that len short have "\<bar>i\<bar> < 2 ^ 53"
      using parseInt_exact [of a i] parseInt_exact [of "or_first b a" i] by auto
    moreover from that dash have "0 \<le> i"
      using parseInt_not_negative by blast
    ultimately show ?thesis by simp
  qed
  have single: "a = ?s \<and> b = None" if "CHR ''-'' \<notin> set ?s"
    using pieces split_without [OF that] by (simp add: first_and_last_def)
  have range: "fees_range blocks accruals =
           (case parseInt a of
              None \<Rightarrow>
                Inl (Error (''First'' @ (if truthy blocks then '' block number'' else '' accrual index'') @
                            '' must be a number higher than 0.''))
            | Some f \<Rightarrow>
                (case parseInt (or_first b a) of
                   None \<Rightarrow>
                     Inl (Error (''Last'' @ (if truthy blocks then '' block number'' else '' accrual index'') @
                                 '' must be a number higher than 0.''))
                 | Some l \<Rightarrow>
                     Inr (Some \<lparr>rtype = (if truthy blocks then blockSymbol else accrualSymbol),
                                rfirst = f, rlast = l\<rparr>)))"
    using given pieces validate_bound [OF dash(1)] validate_bound [OF dash(2)]
    by (cases "truthy blocks") (auto simp add: fees_range_def split: option.splits)
  from range bound single show ?thesis
    by (simp add: or_first_def)
qed

theorem range_of_a_fee_claim_witness:
  "fees_range None (Some ''0-2'') = Inr (Some \<lparr>rtype = accrualSymbol, rfirst = 0, rlast = 2\<rparr>) \<and>
   fees_range (Some ''3'') None = Inr (Some \<lparr>rtype = blockSymbol, rfirst = 3, rlast = 3\<rparr>) \<and>
   fees_range None (Some ''7-x'') = Inl (Error ''Last accrual index must be a number higher than 0.'') \<and>
   fees_range None (Some ''-5'') = Inl (Error ''First accrual index must be a number higher than 0.'')"
proof -
  have 1: "truthy (if truthy None then None else Some ''0-2'')"
          "truthy (if truthy (Some ''3'') then Some ''3'' else None)"
          "truthy (if truthy None then None else Some ''7-x'')"
          "truthy (if truthy None then None else Some ''-5'')"
    by (simp_all add: truthy_def)
  have 2: "first_and_last (the (if truthy None then None else Some ''0-2'')) = (''0'', Some ''2'')"
          "first_and_last (the (if truthy (Some ''3'') then Some ''3'' else None)) = (''3'', None)"
          "first_and_last (the (if truthy None then None else Some ''7-x'')) = (''7'', Some ''x'')"
          "first_and_last (the (if truthy None then None else Some ''-5'')) = ('''', Some ''5'')"
    by (simp_all add: truthy_def first_and_last_def)
  have 3: "length (the (if truthy None then None else Some ''0-2'')) \<le> 15"
          "length (the (if truthy (Some ''3'') then Some ''3'' else None)) \<le> 15"
          "length (the (if truthy None then None else Some ''7-x'')) \<le> 15"
          "length (the (if truthy None then None else Some ''-5'')) \<le> 15"
    by (simp_all add: truthy_def)
  from range_of_a_fee_claim [OF 1(1) 2(1) 3(1)] range_of_a_fee_claim [OF 1(2) 2(2) 3(2)]
    range_of_a_fee_claim [OF 1(3) 2(3) 3(3)] range_of_a_fee_claim [OF 1(4) 2(4) 3(4)]
  show ?thesis
    by (simp add: truthy_def or_first_def parse_defs)
qed

text \<open>
  The claim as it was stated fails: the range \<open>5-2\<close> is accepted with its last bound
  below its first.
\<close>

theorem range_counterexample:
  "fees_range None (Some ''5-2'') = Inr (Some \<lparr>rtype = accrualSymbol, rfirst = 5, rlast = 2\<rparr>)"
  by (simp add: range_defs parse_defs)

lemmas round_defs = to_double_def scale_def round_half_even_def bit_length.simps

lemma decimal_of_example: "decimal_of ''1.1'' = Some (11, 1)"
  by (simp add: decimal_of_def parse_defs)

lemma to_double_11_10: "to_double 11 10 = Double 4953959590107546 (- 52)"
  by (simp add: round_defs)

lemma to_double_10_18: "to_double (10 ^ 18) 1 = Double 7812500000000000 7"
  by (simp add: round_defs)

lemma multiply_example:
  "multiply (Double 4953959590107546 (- 52)) (Double 7812500000000000 7) =
     Double 8593750000000001 7"
  by (simp add: multiply_def round_defs)

lemma pay_amount_example: "pay_amount ''1.1'' 18 = Some (Double 8593750000000001 7)"
  using to_double_10_18
  by (simp add: pay_amount_def parseFloat_def decimal_of_example to_double_11_10 multiply_example)

text \<open>
  Claim C4 fails on the earlier pay.js (src/unnamed/part_000, line 19), which computes
  the amount in floating point: \<^verbatim>\<open>pay 1.1\<close> of a token with 18 decimals gives the
  double \<open>1100000000000000128\<close>, not \<open>1.1 * 10\<^sup>1\<^sup>8\<close>. (The pay.js under src/commands
  leaves the conversion to the ethers library's \<^verbatim>\<open>parseUnits\<close>.)
\<close>

theorem pay_amount_is_rounded:
  "map_option double_value (pay_amount ''1.1'' 18) = Some (11 * 10 ^ 17 + 128)"
  by (simp add: pay_amount_example double_value_def)

text \<open>
  Claim C9, as the code has it. The handler of pay.js does not look at the amount itself;
  it hands it to \<^verbatim>\<open>parseUnits\<close>. For a currency that is found, whatever the number of
  its decimals, and an amount that \<^verbatim>\<open>parseUnits\<close> converts to 0, as the ethers library
  does with the text \<open>0\<close>: the provider is constructed first and, for a currency other
  than ETH, the supported tokens are fetched; then the payment of \<open>0\<close> base units is
  constructed and the private key is asked for; and when the key is obtained and the
  registration succeeds, the payment is signed and registered and the handler ends
  without an error. No error is raised for the amount.
\<close>

theorem pay_has_no_zero_check:
  assumes found: "getCurrencyBySymbol (currency argv) w = (t, Inr (Some c))"
      and zero: "parseUnits w (amount argv) (def_decimals c) = Inr 0"
  shows "take (Suc (length t) + 2) (fst (pay_handler argv w)) =
           NewStriimProvider # t @
           [NewPayment ''0'' (prefix0x w (def_currency c)) (prefix0x w (wallet_address w))
              (prefix0x w (recipient argv)),
            ConfigPrivateKey (wallet_secret w) (config_private_key w)] \<and>
         t = (if toUpperCase w (currency argv) = ''ETH'' then []
              else [GetSupportedTokens (supported_tokens w)]) \<and>
         (\<forall>k response. config_private_key w = Inr k \<and> payment_register w = Inr response \<longrightarrow>
            pay_handler argv w =
              (NewStriimProvider # t @
               [NewPayment ''0'' (prefix0x w (def_currency c)) (prefix0x w (wallet_address w))
                  (prefix0x w (recipient argv)),
                ConfigPrivateKey (wallet_secret w) (Inr k), PaymentSign k,
                PaymentRegister (Inr response), ConsoleDebug response],
               Inr ()))"
proof -
  have t: "t = (if toUpperCase w (currency argv) = ''ETH'' then []
                else [GetSupportedTokens (supported_tokens w)])"
    using found
    by (auto simp add: getCurrencyBySymbol_def return_def call_def bind_def
        split: if_splits sum.splits)
  have zero_text: "toString 0 = ''0''"
    by (simp add: toString_def toString_nat.simps)
  show ?thesis
    using found zero t zero_text
    by (cases "config_private_key w"; cases "payment_register w")
       (simp_all add: pay_handler_def return_def throw_def emit_def call_def bind_def seq_def
          try_catch_def)
qed

theorem pay_has_no_zero_check_witness:
  "pay_handler \<lparr>amount = ''0'', currency = ''hbt'',
                 recipient = ''0x1234567890123456789012345678901234567890''\<rparr> example_pay_env =
     ([NewStriimProvider,
       GetSupportedTokens (supported_tokens example_pay_env),
       NewPayment ''0'' ''0x0000000000000000000000000000000000000001''
         ''0x1234567890123456789012345678901234567891''
         ''0x1234567890123456789012345678901234567890'',
       ConfigPrivateKey ''expected secret'' (Inr ''a private key''), PaymentSign ''a private key'',
       PaymentRegister (Inr ''{}''), ConsoleDebug ''{}''],
      Inr ())"
proof -
  let ?argv = "\<lparr>amount = ''0'', currency = ''hbt'',
                 recipient = ''0x1234567890123456789012345678901234567890''\<rparr>"
  let ?c = "\<lparr>def_currency = ''0x0000000000000000000000000000000000000001'',
             def_decimals = 15, def_symbol = ''HBT''\<rparr>"
  have found: "getCurrencyBySymbol (currency ?argv) example_pay_env =
      ([GetSupportedTokens (supported_tokens example_pay_env)], Inr (Some ?c))"
    by (simp add: getCurrencyBySymbol_def return_def call_def bind_def example_pay_env_def
        ascii_upper_def)
  have zero: "parseUnits example_pay_env (amount ?argv) (def_decimals ?c) = Inr 0"
    by (simp add: example_pay_defs)
  have rest: "config_private_key example_pay_env = Inr ''a private key''"
      "payment_register example_pay_env = Inr ''{}''"
      "wallet_secret example_pay_env = ''expected secret''"
      "prefix0x example_pay_env = sdk_prefix0x"
      "wallet_address example_pay_env = ''0x1234567890123456789012345678901234567891''"
    by (simp_all add: example_pay_env_def)
  from pay_has_no_zero_check [OF found zero] rest show ?thesis
    by (simp add: sdk_prefix0x_def)
qed

text \<open>
  The claim as it was stated fails: \<^verbatim>\<open>pay 0 ETH\<close> registers a payment of 0 base units
  and ends without an error.
\<close>

theorem pay_zero_counterexample:
  "pay_handler \<lparr>amount = ''0'', currency = ''ETH'',
                 recipient = ''0x1234567890123456789012345678901234567890''\<rparr> example_pay_env =
     ([NewStriimProvider,
       NewPayment ''0'' ''0x0000000000000000000000000000000000000000''
         ''0x1234567890123456789012345678901234567891''
         ''0x1234567890123456789012345678901234567890'',
       ConfigPrivateKey ''expected secret'' (Inr ''a private key''), PaymentSign ''a private key'',
       PaymentRegister (Inr ''{}''), ConsoleDebug ''{}''],
      Inr ())"
  by (simp add: pay_defs example_pay_defs eval_nat_numeral)

end
